theory Spec2Isabelle
  imports Complex_Main "HOL-Library.Word"
begin

unbundle bit_operations_syntax

section \<open>Native-messaging pairing and session channel of the PearPass desktop host\<close>

text \<open>
  A shallow embedding of \<^verbatim>\<open>src/services/security/appIdentity.js\<close>, of the session
  manager (\<^verbatim>\<open>sessionManager.js\<close>) and of \<^verbatim>\<open>src/services/handlers/SecurityHandlers.js\<close>.
  Every function of the source is a HOL function of the same name.  A JavaScript
  exception is the left summand of the result; module state, the vault client's store and
  \<^verbatim>\<open>localStorage\<close> are fields of one record that is passed through every call.
\<close>

subsection \<open>Bytes, strings and errors\<close>

type_synonym byte = "8 word"
type_synonym bytes = "byte list"

text \<open>
  The errors the code throws: the members of \<^verbatim>\<open>SecurityErrorCodes\<close> it names, and the
  exceptions of the JavaScript runtime and of the vault client that can pass through it.
  The specification calls \<^verbatim>\<open>CLIENT_ALREADY_PAIRED\<close> PeerAlreadyPaired,
  \<^verbatim>\<open>CLIENT_SIGNATURE_INVALID\<close> PeerSignatureInvalid, \<^verbatim>\<open>CLIENT_NOT_PAIRED\<close>
  PeerNotPaired and \<^verbatim>\<open>CLIENT_KEY_MISMATCH\<close> PeerKeyMismatch.
\<close>

datatype js_error =
    PAIRING_TOKEN_REQUIRED
  | CLIENT_PUBLIC_KEY_REQUIRED
  | MISSING_CLIENT_PUBLIC_KEY
  | INVALID_PAIRING_TOKEN
  | INVALID_PAIRING_SECRET
  | CLIENT_ALREADY_PAIRED
  | NOT_PAIRED
  | CLIENT_NOT_PAIRED
  | NO_PENDING_PAIRING
  | CLIENT_KEY_MISMATCH
  | MISSING_EPHEMERAL_PUBLIC_KEY
  | MISSING_SESSION_ID
  | MISSING_CLIENT_SIGNATURE
  | SESSION_NOT_FOUND
  | INVALID_CLIENT_PUBLIC_KEY
  | INVALID_CLIENT_SIGNATURE
  | INVALID_TRANSCRIPT
  | CLIENT_SIGNATURE_INVALID
  | DECRYPT_FAILED
  | INVALID_SEQ
  | REPLAY_DETECTED
  | IDENTITY_KEYS_UNAVAILABLE
  | NATIVE_MESSAGING_DISABLED
  | PairingSecretPersistenceFailed
  | TypeError
  | RangeError
  | SyntaxError
  | VaultRejected

definition bindE :: "'e + 'a \<Rightarrow> ('a \<Rightarrow> 'e + 'b) \<Rightarrow> 'e + 'b" where
  "bindE r f = (case r of Inl e \<Rightarrow> Inl e | Inr a \<Rightarrow> f a)"

text \<open>
  The functions of Node and of sodium-native that the code calls.  They are not code of
  this repository, so the model takes them as the fields of a record \<open>L\<close>:
  \<^item> \<open>toBase64\<close>, \<open>fromBase64\<close>: \<^verbatim>\<open>Buffer.from(b).toString('base64')\<close> and
    \<^verbatim>\<open>Buffer.from(s, 'base64')\<close>;
  \<^item> \<open>crypto_hash_sha256 input i\<close>: byte \<open>i\<close> of the digest written to the 32-byte
    output buffer;
  \<^item> \<open>crypto_sign_verify_detached sig msg pk\<close>, \<open>crypto_sign_detached msg sk\<close>;
  \<^item> \<open>crypto_secretbox_easy msg nonce key\<close> and
    \<open>crypto_secretbox_open_easy ct nonce key\<close> (\<open>None\<close> when authentication fails);
  \<^item> \<open>crypto_scalarmult sk pk\<close>;
  \<^item> \<open>crypto_sign_keypair n\<close>, \<open>crypto_box_keypair n\<close>, \<open>randombytes_buf n len\<close>:
    what the \<open>n\<close>-th call of the generator returns (public key first);
  \<^item> \<open>JSON_stringify\<close> of a stored peer record.

  The fields are total functions: the assertion with which sodium-native refuses a
  buffer of the wrong size (a nonce not of 24 bytes, a key not of 32 bytes) is not
  represented.
\<close>

record client_data =
  publicKey :: "string option"
  pairingState :: "string option"

record lib =
  toBase64 :: "bytes \<Rightarrow> string"
  fromBase64 :: "string \<Rightarrow> bytes"
  crypto_hash_sha256 :: "bytes \<Rightarrow> nat \<Rightarrow> byte"
  crypto_sign_verify_detached :: "bytes \<Rightarrow> bytes \<Rightarrow> bytes \<Rightarrow> bool"
  crypto_sign_detached :: "bytes \<Rightarrow> bytes \<Rightarrow> bytes"
  crypto_secretbox_easy :: "bytes \<Rightarrow> bytes \<Rightarrow> bytes \<Rightarrow> bytes"
  crypto_secretbox_open_easy :: "bytes \<Rightarrow> bytes \<Rightarrow> bytes \<Rightarrow> bytes option"
  crypto_scalarmult :: "bytes \<Rightarrow> bytes \<Rightarrow> bytes"
  crypto_sign_keypair :: "nat \<Rightarrow> bytes \<times> bytes"
  crypto_box_keypair :: "nat \<Rightarrow> bytes \<times> bytes"
  randombytes_buf :: "nat \<Rightarrow> nat \<Rightarrow> bytes"
  JSON_stringify :: "client_data \<Rightarrow> string"

text \<open>\<^verbatim>\<open>TypedArray.prototype.set(src, offset)\<close>: a RangeError when the source does not fit.\<close>

definition Uint8Array_set :: "bytes \<Rightarrow> bytes \<Rightarrow> nat \<Rightarrow> js_error + bytes" where
  "Uint8Array_set buf src off =
     (if length buf < off + length src then Inl RangeError
      else Inr (take off buf @ src @ drop (off + length src) buf))"

definition subarray :: "nat \<Rightarrow> nat \<Rightarrow> bytes \<Rightarrow> bytes" where
  "subarray a b xs = take (b - a) (drop a xs)"

definition readUInt32BE :: "bytes \<Rightarrow> nat" where
  "readUInt32BE xs = foldl (\<lambda>acc b. acc * 256 + unat b) 0 (take 4 xs)"

fun toString :: "nat \<Rightarrow> string" where
  "toString n =
     (if n < 10 then [''0123456789'' ! n]
      else toString (n div 10) @ [''0123456789'' ! (n mod 10)])"

declare toString.simps [simp del]

definition padStart :: "nat \<Rightarrow> char \<Rightarrow> string \<Rightarrow> string" where
  "padStart n c s = replicate (n - length s) c @ s"

definition toHex :: "bytes \<Rightarrow> string" where
  "toHex xs =
     concat (map (\<lambda>b. [''0123456789abcdef'' ! (unat b div 16),
                         ''0123456789abcdef'' ! (unat b mod 16)]) xs)"

definition upperChar :: "char \<Rightarrow> char" where
  "upperChar c =
     (case map_of (zip ''abcdefghijklmnopqrstuvwxyz'' ''ABCDEFGHIJKLMNOPQRSTUVWXYZ'') c of
        Some u \<Rightarrow> u
      | None \<Rightarrow> c)"

definition toUpperCase :: "string \<Rightarrow> string" where
  "toUpperCase s = map upperChar s"

subsection \<open>The pairing code (appIdentity.js, getPairingCode)\<close>

text \<open>\<^verbatim>\<open>Buffer.from('pearpass/pairingcode/v1', 'utf8')\<close>, 23 bytes.\<close>

definition PAIRING_CODE_TAG :: bytes where
  "PAIRING_CODE_TAG =
     [112, 101, 97, 114, 112, 97, 115, 115, 47, 112, 97, 105, 114, 105, 110, 103,
      99, 111, 100, 101, 47, 118, 49]"

text \<open>
  The buffer \<^verbatim>\<open>input\<close> of getPairingCode after its four \<^verbatim>\<open>input.set\<close> calls, the last
  of which is \<^verbatim>\<open>input.set(publicKey, secret.length)\<close>.
\<close>

definition pairingCodeInput :: "bytes \<Rightarrow> bytes \<Rightarrow> js_error + bytes" where
  "pairingCodeInput secret pk =
     bindE (Uint8Array_set
              (replicate (length PAIRING_CODE_TAG + length secret + length pk) 0)
              PAIRING_CODE_TAG 0) (\<lambda>input.
     bindE (Uint8Array_set input secret (length PAIRING_CODE_TAG)) (\<lambda>input.
     bindE (Uint8Array_set input pk (length PAIRING_CODE_TAG + length secret)) (\<lambda>input.
     Uint8Array_set input pk (length secret))))"

text \<open>The part of getPairingCode after the hash: the code and the suffix.\<close>

definition formatPairingCode :: "bytes \<Rightarrow> string" where
  "formatPairingCode out =
     (let num = readUInt32BE (subarray 0 4 out);
          code = padStart 6 CHR ''0'' (toString (num mod 1000000));
          suffix = toUpperCase (toHex (subarray 4 6 out))
      in code @ ''-'' @ suffix)"

definition getPairingCode :: "lib \<Rightarrow> string \<Rightarrow> string \<Rightarrow> js_error + string" where
  "getPairingCode L ed25519PublicKeyB64 pairingSecretB64 =
     (let secret = fromBase64 L pairingSecretB64;
          pk = fromBase64 L ed25519PublicKeyB64
      in bindE (pairingCodeInput secret pk) (\<lambda>input.
           let out = map (crypto_hash_sha256 L input) [0..<32]
           in Inr (formatPairingCode out)))"

text \<open>
  The pairing code as the specification words it: \<open>h = sha256(tag \<parallel> secret \<parallel> pk)\<close>, the
  first four bytes of \<open>h\<close> big-endian modulo 1000000 as six decimal digits, a hyphen, the
  big-endian 16-bit value of bytes 4 and 5 as four upper-case hexadecimal digits.
\<close>

fun toStringHexUpper :: "nat \<Rightarrow> string" where
  "toStringHexUpper n =
     (if n < 16 then [''0123456789ABCDEF'' ! n]
      else toStringHexUpper (n div 16) @ [''0123456789ABCDEF'' ! (n mod 16)])"

declare toStringHexUpper.simps [simp del]

definition pairingCode_spec :: "lib \<Rightarrow> bytes \<Rightarrow> bytes \<Rightarrow> string" where
  "pairingCode_spec L secret pk =
     (let h = map (crypto_hash_sha256 L (PAIRING_CODE_TAG @ secret @ pk)) [0..<32];
          u32 = ((unat (h ! 0) * 256 + unat (h ! 1)) * 256 + unat (h ! 2)) * 256 + unat (h ! 3);
          u16 = unat (h ! 4) * 256 + unat (h ! 5)
      in padStart 6 CHR ''0'' (toString (u32 mod 1000000)) @ ''-'' @
         padStart 4 CHR ''0'' (toStringHexUpper u16))"

subsection \<open>The state the code runs in\<close>

text \<open>
  A session of the session table (sessionStore.js).  \<open>sendSeq\<close> counts sealed frames, as
  a natural number (the counter of the code is a double, exact below \<open>2 ^ 53\<close>);
  \<open>lastRecvSeq\<close> is a JavaScript number that is always finite here, hence a rational.
\<close>

record session =
  key :: bytes
  transcript :: bytes
  sendSeq :: nat
  lastRecvSeq :: rat
  clientVerified :: bool

text \<open>The module variable \<^verbatim>\<open>MEMORY_IDENTITY\<close> of appIdentity.js, when it is not null.\<close>

record mem_identity =
  ed25519PublicKeyBytes :: bytes
  ed25519PrivateKeyBytes :: bytes
  x25519PublicKeyBytes :: bytes
  x25519PrivateKeyBytes :: bytes
  mem_creationDate :: string

text \<open>
  A string held by the vault client's encrypted store.  The text
  \<^verbatim>\<open>JSON.stringify({publicKey, pairingState})\<close> is represented by the object it encodes
  (\<open>Json\<close>), so that \<^verbatim>\<open>JSON.parse\<close> of it gives the object back; every other string is
  \<open>Str\<close>.  The code reads nothing but \<^verbatim>\<open>publicKey\<close> and \<^verbatim>\<open>pairingState\<close> from a parsed
  value, so a string that does not parse and one that parses to a value without these
  properties behave alike.
\<close>

datatype kv_val = Str string | Json client_data

text \<open>What \<^verbatim>\<open>client.encryptionGet\<close> resolves to: null, a string, or \<^verbatim>\<open>{ data: string|null }\<close>.\<close>

datatype reply = RNull | RValue kv_val | RObject "kv_val option"

text \<open>
  The argument \<^verbatim>\<open>client\<close> of the functions of appIdentity.js: the vault client, or
  \<^verbatim>\<open>undefined\<close> when the caller passes no argument.
\<close>

datatype client_ref = Undefined | Client

text \<open>
  The state:
  \<^item> the vault client (pearpass-lib-vault-core, outside this repository): the store
    behind \<^verbatim>\<open>encryptionGet\<close>/\<^verbatim>\<open>encryptionAdd\<close>, whether reads and writes resolve or
    reject at present, the shape of its replies, and its initialisation status;
  \<^item> \<^verbatim>\<open>localStorage\<close>;
  \<^item> \<^verbatim>\<open>MEMORY_IDENTITY\<close>;
  \<^item> the session table;
  \<^item> the flag behind \<^verbatim>\<open>getNativeMessagingEnabled()\<close>;
  \<^item> how often each generator of sodium-native has been called, and the clock
    (\<^verbatim>\<open>new Date().toISOString()\<close>).
\<close>

record world =
  vault_store :: "string \<Rightarrow> kv_val option"
  vault_get_ok :: bool
  vault_add_ok :: bool
  vault_wraps :: bool
  vault_initialized :: bool
  localStorage :: "string \<Rightarrow> string option"
  MEMORY_IDENTITY :: "mem_identity option"
  sessions :: "string \<Rightarrow> session option"
  nativeMessagingEnabled :: bool
  sign_keypair_calls :: nat
  box_keypair_calls :: nat
  randombytes_calls :: nat
  now :: string

type_synonym 'a io = "world \<Rightarrow> (js_error + 'a) \<times> world"

definition ret :: "'a \<Rightarrow> 'a io" where
  "ret x w = (Inr x, w)"

definition throw :: "js_error \<Rightarrow> 'a io" where
  "throw e w = (Inl e, w)"

text \<open>\<open>await m f\<close>: run \<open>m\<close>; an exception ends the function, a value goes on to \<open>f\<close>.\<close>

definition await :: "'a io \<Rightarrow> ('a \<Rightarrow> 'b io) \<Rightarrow> 'b io" where
  "await m f w = (case m w of (Inl e, w') \<Rightarrow> (Inl e, w') | (Inr a, w') \<Rightarrow> f a w')"

text \<open>\<^verbatim>\<open>try { m } catch { h }\<close>.\<close>

definition try_catch :: "'a io \<Rightarrow> (js_error \<Rightarrow> 'a io) \<Rightarrow> 'a io" where
  "try_catch m h w = (case m w of (Inl e, w') \<Rightarrow> h e w' | (Inr a, w') \<Rightarrow> (Inr a, w'))"

text \<open>
  \<^verbatim>\<open>client.method(...).catch(h)\<close>: the handler sees a rejection of the promise.  The
  TypeError of a method call on an undefined \<^verbatim>\<open>client\<close> is thrown before there is a
  promise, so it is not handled.
\<close>

definition dot_catch :: "'a io \<Rightarrow> (js_error \<Rightarrow> 'a io) \<Rightarrow> 'a io" where
  "dot_catch m h w =
     (case m w of
        (Inl e, w') \<Rightarrow> if e = TypeError then (Inl e, w') else h e w'
      | (Inr a, w') \<Rightarrow> (Inr a, w'))"

definition lift :: "js_error + 'a \<Rightarrow> 'a io" where
  "lift r w = (r, w)"

definition truthy :: "string option \<Rightarrow> bool" where
  "truthy v = (case v of None \<Rightarrow> False | Some s \<Rightarrow> s \<noteq> [])"

subsection \<open>The vault client and the generators\<close>

text \<open>The reply of the vault client for a key, in the shape this client uses.\<close>

definition reply_of :: "world \<Rightarrow> string \<Rightarrow> reply" where
  "reply_of w k =
     (if vault_wraps w then RObject (vault_store w k)
      else (case vault_store w k of None \<Rightarrow> RNull | Some v \<Rightarrow> RValue v))"

definition encryptionGet :: "client_ref \<Rightarrow> string \<Rightarrow> reply io" where
  "encryptionGet client k w =
     (case client of
        Undefined \<Rightarrow> (Inl TypeError, w)
      | Client \<Rightarrow>
          if vault_get_ok w then (Inr (reply_of w k), w) else (Inl VaultRejected, w))"

definition encryptionAdd :: "client_ref \<Rightarrow> string \<Rightarrow> kv_val \<Rightarrow> unit io" where
  "encryptionAdd client k v w =
     (case client of
        Undefined \<Rightarrow> (Inl TypeError, w)
      | Client \<Rightarrow>
          if vault_add_ok w
          then (Inr (), w\<lparr>vault_store := (vault_store w)(k \<mapsto> v)\<rparr>)
          else (Inl VaultRejected, w))"

definition encryptionGetStatus :: "client_ref \<Rightarrow> bool io" where
  "encryptionGetStatus client w =
     (case client of Undefined \<Rightarrow> (Inl TypeError, w) | Client \<Rightarrow> (Inr (vault_initialized w), w))"

definition encryptionInit :: "client_ref \<Rightarrow> unit io" where
  "encryptionInit client w =
     (case client of
        Undefined \<Rightarrow> (Inl TypeError, w)
      | Client \<Rightarrow> (Inr (), w\<lparr>vault_initialized := True\<rparr>))"

definition sign_keypair :: "lib \<Rightarrow> (bytes \<times> bytes) io" where
  "sign_keypair L w =
     (Inr (crypto_sign_keypair L (sign_keypair_calls w)),
      w\<lparr>sign_keypair_calls := Suc (sign_keypair_calls w)\<rparr>)"

definition box_keypair :: "lib \<Rightarrow> (bytes \<times> bytes) io" where
  "box_keypair L w =
     (Inr (crypto_box_keypair L (box_keypair_calls w)),
      w\<lparr>box_keypair_calls := Suc (box_keypair_calls w)\<rparr>)"

definition randomBytes :: "lib \<Rightarrow> nat \<Rightarrow> bytes io" where
  "randomBytes L n w =
     (Inr (randombytes_buf L (randombytes_calls w) n),
      w\<lparr>randombytes_calls := Suc (randombytes_calls w)\<rparr>)"

definition new_Date_toISOString :: "string io" where
  "new_Date_toISOString w = (Inr (now w), w)"

text \<open>Reading and assigning the module variable \<^verbatim>\<open>MEMORY_IDENTITY\<close>.\<close>

definition getMemIdentity :: "mem_identity option io" where
  "getMemIdentity w = (Inr (MEMORY_IDENTITY w), w)"

definition setMemIdentity :: "mem_identity option \<Rightarrow> unit io" where
  "setMemIdentity m w = (Inr (), w\<lparr>MEMORY_IDENTITY := m\<rparr>)"

subsection \<open>appIdentity.js\<close>

definition ENC_KEY_ED25519 :: string where
  "ENC_KEY_ED25519 = ''nm.identity.ed25519''"

definition ENC_KEY_X25519 :: string where
  "ENC_KEY_X25519 = ''nm.identity.x25519''"

definition ENC_KEY_CREATION_DATE :: string where
  "ENC_KEY_CREATION_DATE = ''nm.identity.creationDate''"

definition ENC_KEY_CLIENT_DATA :: string where
  "ENC_KEY_CLIENT_DATA = ''nm.client.data''"

definition ENC_KEY_PAIRING_SECRET :: string where
  "ENC_KEY_PAIRING_SECRET = ''nm.identity.pairingSecret''"

text \<open>
  \<^verbatim>\<open>LOCAL_STORAGE_KEYS.NM_CLIENT_PUBLIC_KEY\<close>: the constant is declared in
  constants/localStorage.js; only its name is known here.
\<close>

definition NM_CLIENT_PUBLIC_KEY :: string where
  "NM_CLIENT_PUBLIC_KEY = ''NM_CLIENT_PUBLIC_KEY''"

definition PENDING :: string where
  "PENDING = ''PENDING''"

definition CONFIRMED :: string where
  "CONFIRMED = ''CONFIRMED''"

definition falsy :: "kv_val \<Rightarrow> bool" where
  "falsy v = (v = Str [])"

definition normalizeEncryptionGet :: "reply \<Rightarrow> kv_val option" where
  "normalizeEncryptionGet val =
     (case val of
        RNull \<Rightarrow> None
      | RValue v \<Rightarrow> if falsy v then None else Some v
      | RObject d \<Rightarrow> (case d of None \<Rightarrow> None | Some v \<Rightarrow> if falsy v then None else Some v))"

text \<open>The characters of a stored string.\<close>

definition text_of :: "lib \<Rightarrow> kv_val \<Rightarrow> string" where
  "text_of L v = (case v of Str s \<Rightarrow> s | Json d \<Rightarrow> JSON_stringify L d)"

definition getOrCreatePairingSecret :: "lib \<Rightarrow> client_ref \<Rightarrow> string io" where
  "getOrCreatePairingSecret L client =
     await (dot_catch (encryptionGet client ENC_KEY_PAIRING_SECRET) (\<lambda>_. ret RNull)) (\<lambda>r.
       case normalizeEncryptionGet r of
         Some v \<Rightarrow>
           if length (fromBase64 L (text_of L v)) \<noteq> 32 then throw INVALID_PAIRING_SECRET
           else ret (text_of L v)
       | None \<Rightarrow>
           await (randomBytes L 32) (\<lambda>secretBytes.
           await (try_catch (encryptionAdd client ENC_KEY_PAIRING_SECRET
                               (Str (toBase64 L secretBytes)))
                    (\<lambda>_. throw PairingSecretPersistenceFailed)) (\<lambda>_.
           ret (toBase64 L secretBytes))))"

definition ensureEncryptionInitialized :: "client_ref \<Rightarrow> unit io" where
  "ensureEncryptionInitialized client =
     try_catch
       (await (encryptionGetStatus client) (\<lambda>initialized.
          if \<not> initialized then encryptionInit client else ret ()))
       (\<lambda>_. try_catch (encryptionInit client) (\<lambda>_. ret ()))"

record identity =
  ed25519PublicKey :: string
  x25519PublicKey :: string
  creationDate :: string

definition generateAndPersistIdentity :: "lib \<Rightarrow> client_ref \<Rightarrow> identity io" where
  "generateAndPersistIdentity L client =
     await (sign_keypair L) (\<lambda>(edPk, edSk).
     await (box_keypair L) (\<lambda>(xPk, xSk).
     await new_Date_toISOString (\<lambda>date.
     await (try_catch (await (encryptionAdd client ENC_KEY_ED25519
                                (Str (toBase64 L (edPk @ edSk)))) (\<lambda>_. ret True))
              (\<lambda>_. ret False)) (\<lambda>p1.
     await (try_catch (await (encryptionAdd client ENC_KEY_X25519
                                (Str (toBase64 L (xPk @ xSk)))) (\<lambda>_. ret p1))
              (\<lambda>_. ret False)) (\<lambda>p2.
     await (try_catch (await (encryptionAdd client ENC_KEY_CREATION_DATE (Str date))
                         (\<lambda>_. ret p2))
              (\<lambda>_. ret False)) (\<lambda>persisted.
     await (if \<not> persisted
            then setMemIdentity (Some
                   \<lparr>ed25519PublicKeyBytes = edPk, ed25519PrivateKeyBytes = edSk,
                    x25519PublicKeyBytes = xPk, x25519PrivateKeyBytes = xSk,
                    mem_creationDate = date\<rparr>)
            else ret ()) (\<lambda>_.
     ret \<lparr>ed25519PublicKey = toBase64 L edPk, x25519PublicKey = toBase64 L xPk,
          creationDate = date\<rparr>)))))))"

definition getOrCreateIdentity :: "lib \<Rightarrow> client_ref \<Rightarrow> identity io" where
  "getOrCreateIdentity L client =
     await (ensureEncryptionInitialized client) (\<lambda>_.
     await (try_catch (await (getOrCreatePairingSecret L client) (\<lambda>_. ret ()))
              (\<lambda>_. ret ())) (\<lambda>_.
     await (dot_catch (encryptionGet client ENC_KEY_ED25519) (\<lambda>_. ret RNull)) (\<lambda>r1.
     await (dot_catch (encryptionGet client ENC_KEY_X25519) (\<lambda>_. ret RNull)) (\<lambda>r2.
     await (dot_catch (encryptionGet client ENC_KEY_CREATION_DATE) (\<lambda>_. ret RNull)) (\<lambda>r3.
     await getMemIdentity (\<lambda>mem.
       case (normalizeEncryptionGet r1, normalizeEncryptionGet r2) of
         (Some ed25519BlobB64, Some x25519BlobB64) \<Rightarrow>
           await (case normalizeEncryptionGet r3 of
                    Some d \<Rightarrow> ret (text_of L d)
                  | None \<Rightarrow> new_Date_toISOString) (\<lambda>date.
           ret \<lparr>ed25519PublicKey =
                  toBase64 L (subarray 0 32 (fromBase64 L (text_of L ed25519BlobB64))),
                x25519PublicKey =
                  toBase64 L (subarray 0 32 (fromBase64 L (text_of L x25519BlobB64))),
                creationDate = date\<rparr>)
       | _ \<Rightarrow>
           (case mem of
              Some m \<Rightarrow>
                await (if mem_creationDate m \<noteq> [] then ret (mem_creationDate m)
                       else new_Date_toISOString) (\<lambda>date.
                ret \<lparr>ed25519PublicKey = toBase64 L (ed25519PublicKeyBytes m),
                     x25519PublicKey = toBase64 L (x25519PublicKeyBytes m),
                     creationDate = date\<rparr>)
            | None \<Rightarrow> generateAndPersistIdentity L client)))))))"

definition getFingerprint :: "lib \<Rightarrow> string \<Rightarrow> string" where
  "getFingerprint L ed25519PublicKeyB64 =
     toHex (map (crypto_hash_sha256 L (fromBase64 L ed25519PublicKeyB64)) [0..<32])"

definition getPairingToken :: "lib \<Rightarrow> client_ref \<Rightarrow> string \<Rightarrow> string io" where
  "getPairingToken L client ed25519PublicKeyB64 =
     await (getOrCreatePairingSecret L client) (\<lambda>pairingSecretB64.
     lift (getPairingCode L ed25519PublicKeyB64 pairingSecretB64))"

definition verifyPairingToken ::
  "lib \<Rightarrow> client_ref \<Rightarrow> string \<Rightarrow> string option \<Rightarrow> bool io" where
  "verifyPairingToken L client ed25519PublicKeyB64 userProvidedToken =
     (if \<not> truthy userProvidedToken then ret False
      else await (getPairingToken L client ed25519PublicKeyB64) (\<lambda>expectedToken.
           ret (toUpperCase (the userProvidedToken) = toUpperCase expectedToken)))"

definition setClientIdentityPublicKey ::
  "client_ref \<Rightarrow> string option \<Rightarrow> string \<Rightarrow> unit io" where
  "setClientIdentityPublicKey client ed25519PublicKeyB64 state =
     (if \<not> truthy ed25519PublicKeyB64 then throw MISSING_CLIENT_PUBLIC_KEY
      else encryptionAdd client ENC_KEY_CLIENT_DATA
             (Json \<lparr>publicKey = ed25519PublicKeyB64, pairingState = Some state\<rparr>))"

definition JSON_parse :: "kv_val \<Rightarrow> client_data io" where
  "JSON_parse v = (case v of Json d \<Rightarrow> ret d | Str s \<Rightarrow> throw SyntaxError)"

definition getClientData :: "client_ref \<Rightarrow> client_data option io" where
  "getClientData client =
     await (dot_catch (encryptionGet client ENC_KEY_CLIENT_DATA) (\<lambda>_. ret RNull)) (\<lambda>r.
       case normalizeEncryptionGet r of
         None \<Rightarrow> ret None
       | Some v \<Rightarrow> try_catch (await (JSON_parse v) (\<lambda>d. ret (Some d))) (\<lambda>_. ret None))"

definition orNull :: "string option \<Rightarrow> string option" where
  "orNull v = (if truthy v then v else None)"

definition getClientIdentityPublicKey :: "client_ref \<Rightarrow> string option io" where
  "getClientIdentityPublicKey client =
     await (getClientData client) (\<lambda>data.
       ret (case data of None \<Rightarrow> None | Some d \<Rightarrow> orNull (publicKey d)))"

definition getCachedClientIdentityPublicKey :: "string option io" where
  "getCachedClientIdentityPublicKey w = (Inr (orNull (localStorage w NM_CLIENT_PUBLIC_KEY)), w)"

definition getClientPairingState :: "client_ref \<Rightarrow> string option io" where
  "getClientPairingState client =
     await (getClientData client) (\<lambda>data.
       ret (case data of None \<Rightarrow> None | Some d \<Rightarrow> orNull (pairingState d)))"

definition localStorage_setItem :: "string \<Rightarrow> string \<Rightarrow> unit io" where
  "localStorage_setItem k v w = (Inr (), w\<lparr>localStorage := (localStorage w)(k \<mapsto> v)\<rparr>)"

definition localStorage_removeItem :: "string \<Rightarrow> unit io" where
  "localStorage_removeItem k w = (Inr (), w\<lparr>localStorage := (localStorage w)(k := None)\<rparr>)"

definition confirmClientPairing :: "client_ref \<Rightarrow> string \<Rightarrow> unit io" where
  "confirmClientPairing client clientEd25519PublicKeyB64 =
     await (getClientData client) (\<lambda>data.
       case data of
         None \<Rightarrow> throw NO_PENDING_PAIRING
       | Some d \<Rightarrow>
           if \<not> truthy (publicKey d) then throw NO_PENDING_PAIRING
           else if publicKey d \<noteq> Some clientEd25519PublicKeyB64 then throw CLIENT_KEY_MISMATCH
           else
             await (localStorage_setItem NM_CLIENT_PUBLIC_KEY clientEd25519PublicKeyB64) (\<lambda>_.
             encryptionAdd client ENC_KEY_CLIENT_DATA
               (Json (d\<lparr>pairingState := Some CONFIRMED\<rparr>))))"

text \<open>
  What the code sees of the store: \<open>readReply w k\<close> is what
  \<^verbatim>\<open>client.encryptionGet(k).catch(() => null)\<close> resolves to, \<open>readKey w k\<close> is that reply
  normalised (nothing when the read is rejected, when the key is absent and when the
  value is the empty string), and \<open>storedData w\<close> is the peer record that getClientData
  parses out of it.
\<close>

definition readReply :: "world \<Rightarrow> string \<Rightarrow> reply" where
  "readReply w k = (if vault_get_ok w then reply_of w k else RNull)"

definition readKey :: "world \<Rightarrow> string \<Rightarrow> kv_val option" where
  "readKey w k = normalizeEncryptionGet (readReply w k)"

definition storedData :: "world \<Rightarrow> client_data option" where
  "storedData w = (case readKey w ENC_KEY_CLIENT_DATA of Some (Json d) \<Rightarrow> Some d | _ \<Rightarrow> None)"

text \<open>
  The state in which getOrCreateIdentity reads the identity blobs: after
  ensureEncryptionInitialized and after its call of getOrCreatePairingSecret, whose
  exception it swallows.
\<close>

definition prepared :: "lib \<Rightarrow> world \<Rightarrow> world" where
  "prepared L w =
     snd (await (ensureEncryptionInitialized Client) (\<lambda>_.
          try_catch (await (getOrCreatePairingSecret L Client) (\<lambda>_. ret ())) (\<lambda>_. ret ())) w)"

text \<open>Whether getOrCreateIdentity finds no usable identity in the store or in memory.\<close>

definition identity_absent :: "world \<Rightarrow> bool" where
  "identity_absent w =
     ((readKey w ENC_KEY_ED25519 = None \<or> readKey w ENC_KEY_X25519 = None) \<and>
      MEMORY_IDENTITY w = None)"

text \<open>The pinned peer key, as getClientIdentityPublicKey reads it with the client.\<close>

definition pinnedKey :: "world \<Rightarrow> string option" where
  "pinnedKey w = (case storedData w of None \<Rightarrow> None | Some d \<Rightarrow> orNull (publicKey d))"

text \<open>The state that a call leaves.\<close>

definition after :: "'a io \<Rightarrow> world \<Rightarrow> world" where
  "after m w = snd (m w)"

subsection \<open>sessionStore.js\<close>

text \<open>
  Modelled from the spec: sessionStore.js is not among the sources; only its callers are.
  The specification (section 4.4) gives an in-memory map from session id to session with
  the operations create, get, close and clearAll (which returns the number of sessions it
  removed), \<open>sessionId = hex(randomBytes(16))\<close>, and (section 3) counters that start at 0
  and a verified flag that starts false.
\<close>

definition getSession :: "string \<Rightarrow> session option io" where
  "getSession sid w = (Inr (sessions w sid), w)"

definition closeSession :: "string \<Rightarrow> unit io" where
  "closeSession sid w = (Inr (), w\<lparr>sessions := (sessions w)(sid := None)\<rparr>)"

definition clearAllSessions :: "nat io" where
  "clearAllSessions w = (Inr (card (dom (sessions w))), w\<lparr>sessions := Map.empty\<rparr>)"

definition putSession :: "string \<Rightarrow> session \<Rightarrow> unit io" where
  "putSession sid s w = (Inr (), w\<lparr>sessions := (sessions w)(sid \<mapsto> s)\<rparr>)"

definition createSession :: "lib \<Rightarrow> bytes \<Rightarrow> bytes \<Rightarrow> string io" where
  "createSession L k t =
     await (randomBytes L 16) (\<lambda>r.
     await (putSession (toHex r)
              \<lparr>key = k, transcript = t, sendSeq = 0, lastRecvSeq = 0,
               clientVerified = False\<rparr>) (\<lambda>_.
     ret (toHex r)))"

definition concatBytes :: "bytes \<Rightarrow> bytes \<Rightarrow> bytes" where
  "concatBytes a b = a @ b"

text \<open>A session object is shared with the table: an assignment to a field updates the entry.\<close>

definition update_session :: "string \<Rightarrow> (session \<Rightarrow> session) \<Rightarrow> unit io" where
  "update_session sid f w =
     (Inr (), case sessions w sid of
                None \<Rightarrow> w
              | Some s \<Rightarrow> w\<lparr>sessions := (sessions w)(sid \<mapsto> f s)\<rparr>)"

subsection \<open>appIdentity.js, resetIdentity\<close>

definition resetIdentity :: "lib \<Rightarrow> client_ref \<Rightarrow> identity io" where
  "resetIdentity L client =
     await clearAllSessions (\<lambda>clearedSessions.
     await (try_catch
              (await (dot_catch (encryptionAdd client ENC_KEY_ED25519 (Str [])) (\<lambda>_. ret ())) (\<lambda>_.
               await (dot_catch (encryptionAdd client ENC_KEY_X25519 (Str [])) (\<lambda>_. ret ())) (\<lambda>_.
               await (dot_catch (encryptionAdd client ENC_KEY_CREATION_DATE (Str []))
                        (\<lambda>_. ret ())) (\<lambda>_.
               await (dot_catch (encryptionAdd client ENC_KEY_CLIENT_DATA (Str []))
                        (\<lambda>_. ret ())) (\<lambda>_.
               await (dot_catch (encryptionAdd client ENC_KEY_PAIRING_SECRET (Str []))
                        (\<lambda>_. ret ())) (\<lambda>_.
               localStorage_removeItem NM_CLIENT_PUBLIC_KEY))))))
              (\<lambda>_. ret ())) (\<lambda>_.
     await (setMemIdentity None) (\<lambda>_.
     getOrCreateIdentity L client)))"

subsection \<open>The session manager (sessionManager.js)\<close>

definition crypto_secretbox_NONCEBYTES :: nat where
  "crypto_secretbox_NONCEBYTES = 24"

definition crypto_secretbox_MACBYTES :: nat where
  "crypto_secretbox_MACBYTES = 16"

definition crypto_sign_PUBLICKEYBYTES :: nat where
  "crypto_sign_PUBLICKEYBYTES = 32"

definition crypto_sign_SECRETKEYBYTES :: nat where
  "crypto_sign_SECRETKEYBYTES = 64"

definition crypto_sign_BYTES :: nat where
  "crypto_sign_BYTES = 64"

definition encryptWithSession ::
  "lib \<Rightarrow> string \<Rightarrow> bytes \<Rightarrow> (string \<times> string \<times> nat) io" where
  "encryptWithSession L sid plaintext =
     await (getSession sid) (\<lambda>s.
       case s of
         None \<Rightarrow> throw SESSION_NOT_FOUND
       | Some session \<Rightarrow>
           await (randomBytes L crypto_secretbox_NONCEBYTES) (\<lambda>nonce.
           await (update_session sid (\<lambda>x. x\<lparr>sendSeq := Suc (sendSeq x)\<rparr>)) (\<lambda>_.
           ret (toBase64 L nonce,
                toBase64 L (crypto_secretbox_easy L plaintext nonce (key session)),
                Suc (sendSeq session)))))"

text \<open>
  \<^verbatim>\<open>new Uint8Array(ciphertext.length - MACBYTES)\<close> is a RangeError when the ciphertext is
  shorter than the authentication tag.
\<close>

definition decryptWithSession :: "lib \<Rightarrow> string \<Rightarrow> bytes \<Rightarrow> bytes \<Rightarrow> bytes io" where
  "decryptWithSession L sid nonce ciphertext =
     await (getSession sid) (\<lambda>s.
       case s of
         None \<Rightarrow> throw SESSION_NOT_FOUND
       | Some session \<Rightarrow>
           if length ciphertext < crypto_secretbox_MACBYTES then throw RangeError
           else (case crypto_secretbox_open_easy L ciphertext nonce (key session) of
                   None \<Rightarrow> throw DECRYPT_FAILED
                 | Some plaintext \<Rightarrow> ret plaintext))"

text \<open>
  The end of beginHandshake, which finalizeHandshakeWithMemoryIdentity repeats with the
  private key of the in-memory identity: ephemeral key pair, ECDH, transcript, signature,
  session.
\<close>

definition finalizeHandshake ::
  "lib \<Rightarrow> bytes \<Rightarrow> string \<Rightarrow> bytes \<Rightarrow> (string \<times> string \<times> string) io" where
  "finalizeHandshake L privateKey extensionEphemeralPublicKeyB64 clientPublicKeyBytes =
     await (box_keypair L) (\<lambda>(hostEphemeralPublicKey, hostEphemeralPrivateKey).
       let extensionEphemeralPublicKey = fromBase64 L extensionEphemeralPublicKeyB64;
           sharedSecret = crypto_scalarmult L hostEphemeralPrivateKey extensionEphemeralPublicKey;
           t = concatBytes (concatBytes hostEphemeralPublicKey extensionEphemeralPublicKey)
                 clientPublicKeyBytes;
           signature = crypto_sign_detached L t privateKey
       in await (createSession L sharedSecret t) (\<lambda>sid.
          ret (toBase64 L hostEphemeralPublicKey, toBase64 L signature, sid)))"

definition finalizeHandshakeWithMemoryIdentity ::
  "lib \<Rightarrow> mem_identity \<Rightarrow> string \<Rightarrow> bytes \<Rightarrow> (string \<times> string \<times> string) io" where
  "finalizeHandshakeWithMemoryIdentity L mem extensionEphemeralPublicKeyB64 clientPublicKeyBytes =
     finalizeHandshake L (ed25519PrivateKeyBytes mem) extensionEphemeralPublicKeyB64
       clientPublicKeyBytes"

text \<open>\<^verbatim>\<open>typeof r === 'string' ? r : r?.data\<close>, and the test \<^verbatim>\<open>!blob\<close> that follows it.\<close>

definition blob_of :: "reply \<Rightarrow> kv_val option" where
  "blob_of r = (case r of RNull \<Rightarrow> None | RValue v \<Rightarrow> Some v | RObject d \<Rightarrow> d)"

definition missing :: "kv_val option \<Rightarrow> bool" where
  "missing b = (case b of None \<Rightarrow> True | Some v \<Rightarrow> falsy v)"

definition beginHandshake ::
  "lib \<Rightarrow> client_ref \<Rightarrow> string \<Rightarrow> (string \<times> string \<times> string) io" where
  "beginHandshake L client extensionEphemeralPublicKeyB64 =
     await (getOrCreateIdentity L client) (\<lambda>_.
     await (getClientIdentityPublicKey client) (\<lambda>clientPubB64.
       if \<not> truthy clientPubB64 then throw CLIENT_NOT_PAIRED
       else
         await (dot_catch (encryptionGet client ENC_KEY_ED25519) (\<lambda>_. ret RNull)) (\<lambda>edResponse.
         await (dot_catch (encryptionGet client ENC_KEY_X25519) (\<lambda>_. ret RNull)) (\<lambda>xResponse.
           if missing (blob_of edResponse) \<or> missing (blob_of xResponse)
           then await getMemIdentity (\<lambda>mem.
                  case mem of
                    Some m \<Rightarrow>
                      finalizeHandshakeWithMemoryIdentity L m extensionEphemeralPublicKeyB64
                        (fromBase64 L (the clientPubB64))
                  | None \<Rightarrow> throw IDENTITY_KEYS_UNAVAILABLE)
           else finalizeHandshake L
                  (subarray crypto_sign_PUBLICKEYBYTES
                     (crypto_sign_PUBLICKEYBYTES + crypto_sign_SECRETKEYBYTES)
                     (fromBase64 L (text_of L (the (blob_of edResponse)))))
                  extensionEphemeralPublicKeyB64 (fromBase64 L (the clientPubB64))))))"

text \<open>
  The argument \<^verbatim>\<open>seq\<close> of recordIncomingSeq: a finite number, NaN, an infinity, or a
  value that is not a number.  A finite double is a rational, and \<^verbatim>\<open><=\<close> on finite
  doubles is the order of the rationals.
\<close>

datatype js_value = JNumber rat | JNaN | JInfinity | JNegInfinity | JNotNumber

definition isFiniteNumber :: "js_value \<Rightarrow> bool" where
  "isFiniteNumber v = (case v of JNumber q \<Rightarrow> True | _ \<Rightarrow> False)"

definition recordIncomingSeq :: "string \<Rightarrow> js_value \<Rightarrow> unit io" where
  "recordIncomingSeq sid seq =
     await (getSession sid) (\<lambda>s.
       case s of
         None \<Rightarrow> throw SESSION_NOT_FOUND
       | Some session \<Rightarrow>
           (case seq of
              JNumber q \<Rightarrow>
                if q \<le> lastRecvSeq session then throw REPLAY_DETECTED
                else update_session sid (\<lambda>x. x\<lparr>lastRecvSeq := q\<rparr>)
            | _ \<Rightarrow> throw INVALID_SEQ))"

text \<open>
  The numbers that recordIncomingSeq accepts when it is called on the arguments of a list,
  one after the other, on the same session.
\<close>

fun acceptedSeqs :: "string \<Rightarrow> js_value list \<Rightarrow> world \<Rightarrow> rat list" where
  "acceptedSeqs sid [] w = []"
| "acceptedSeqs sid (v # vs) w =
     (case recordIncomingSeq sid v w of
        (Inl e, w') \<Rightarrow> acceptedSeqs sid vs w'
      | (Inr u, w') \<Rightarrow>
          (case v of
             JNumber q \<Rightarrow> q # acceptedSeqs sid vs w'
           | _ \<Rightarrow> acceptedSeqs sid vs w'))"

subsection \<open>SecurityHandlers.js\<close>

text \<open>
  The \<^verbatim>\<open>params\<close> object of a request; a property that is absent is \<open>None\<close>, and an
  absent \<^verbatim>\<open>params\<close> has no property.
\<close>

record nm_params =
  pairingToken :: "string option"
  clientEd25519PublicKeyB64 :: "string option"
  extEphemeralPubB64 :: "string option"
  sessionId :: "string option"
  clientSigB64 :: "string option"

text \<open>
  Modelled from the spec: \<^verbatim>\<open>PROTOCOL_TAGS.CLIENT_FINISH\<close> is declared in
  protocolConstants.js, which is not among the sources; section 4.5 gives its value.
\<close>

definition CLIENT_FINISH :: string where
  "CLIENT_FINISH = ''pearpass/client-finish/v1''"

definition utf8 :: "string \<Rightarrow> bytes" where
  "utf8 s = map of_char s"

definition getNativeMessagingEnabled :: "bool io" where
  "getNativeMessagingEnabled w = (Inr (nativeMessagingEnabled w), w)"

text \<open>
  Four handlers look the pinned peer key up with \<^verbatim>\<open>await getClientIdentityPublicKey()\<close>,
  with no argument, where the function is declared \<^verbatim>\<open>async (client) => ...\<close>.  Each of
  them is first defined with the argument of that call as a parameter \<open>arg\<close>
  (\<open>..._with\<close>); the handler of the source is the instance \<open>arg = Undefined\<close>.
\<close>

definition nmGetAppIdentity_with ::
  "client_ref \<Rightarrow> lib \<Rightarrow> client_ref \<Rightarrow> nm_params \<Rightarrow> (string \<times> string \<times> string) io" where
  "nmGetAppIdentity_with arg L this_client params =
     (if \<not> truthy (pairingToken params) then throw PAIRING_TOKEN_REQUIRED
      else if \<not> truthy (clientEd25519PublicKeyB64 params) then throw CLIENT_PUBLIC_KEY_REQUIRED
      else
        await (getOrCreateIdentity L this_client) (\<lambda>id.
        await (verifyPairingToken L this_client (ed25519PublicKey id) (pairingToken params))
          (\<lambda>isValidToken.
          if \<not> isValidToken then throw INVALID_PAIRING_TOKEN
          else
            await (getClientIdentityPublicKey arg) (\<lambda>existingClientPubB64.
              if truthy existingClientPubB64 \<and>
                 existingClientPubB64 \<noteq> clientEd25519PublicKeyB64 params
              then throw CLIENT_ALREADY_PAIRED
              else
                await (setClientIdentityPublicKey this_client
                         (clientEd25519PublicKeyB64 params) PENDING) (\<lambda>_.
                ret (ed25519PublicKey id, x25519PublicKey id,
                     getFingerprint L (ed25519PublicKey id)))))))"

definition nmGetAppIdentity ::
  "lib \<Rightarrow> client_ref \<Rightarrow> nm_params \<Rightarrow> (string \<times> string \<times> string) io" where
  "nmGetAppIdentity = nmGetAppIdentity_with Undefined"

definition nmBeginHandshake_with ::
  "client_ref \<Rightarrow> lib \<Rightarrow> client_ref \<Rightarrow> nm_params \<Rightarrow> (string \<times> string \<times> string) io" where
  "nmBeginHandshake_with arg L this_client params =
     await getNativeMessagingEnabled (\<lambda>enabled.
       if \<not> enabled then throw NATIVE_MESSAGING_DISABLED
       else
         await (getClientIdentityPublicKey arg) (\<lambda>clientPubB64.
           if \<not> truthy clientPubB64 then throw NOT_PAIRED
           else if \<not> truthy (extEphemeralPubB64 params)
           then throw MISSING_EPHEMERAL_PUBLIC_KEY
           else beginHandshake L this_client (the (extEphemeralPubB64 params))))"

definition nmBeginHandshake ::
  "lib \<Rightarrow> client_ref \<Rightarrow> nm_params \<Rightarrow> (string \<times> string \<times> string) io" where
  "nmBeginHandshake = nmBeginHandshake_with Undefined"

definition nmFinishHandshake_with :: "client_ref \<Rightarrow> lib \<Rightarrow> nm_params \<Rightarrow> unit io" where
  "nmFinishHandshake_with arg L params =
     (if \<not> truthy (sessionId params) then throw MISSING_SESSION_ID
      else if \<not> truthy (clientSigB64 params) then throw MISSING_CLIENT_SIGNATURE
      else
        await (getSession (the (sessionId params))) (\<lambda>s.
          case s of
            None \<Rightarrow> throw SESSION_NOT_FOUND
          | Some session \<Rightarrow>
              if clientVerified session then ret ()
              else
                await (getClientIdentityPublicKey arg) (\<lambda>clientPubB64.
                  if \<not> truthy clientPubB64 then throw CLIENT_NOT_PAIRED
                  else
                    let clientPubBytes = fromBase64 L (the clientPubB64);
                        sigBytes = fromBase64 L (the (clientSigB64 params))
                    in
                      if length clientPubBytes \<noteq> crypto_sign_PUBLICKEYBYTES
                      then throw INVALID_CLIENT_PUBLIC_KEY
                      else if length sigBytes \<noteq> crypto_sign_BYTES
                      then throw INVALID_CLIENT_SIGNATURE
                      else if transcript session = [] then throw INVALID_TRANSCRIPT
                      else
                        let protocolTag = utf8 CLIENT_FINISH;
                            sessionIdBytes = utf8 (the (sessionId params));
                            clientTranscript =
                              concatBytes (concatBytes protocolTag sessionIdBytes)
                                (transcript session)
                        in
                          if \<not> crypto_sign_verify_detached L sigBytes clientTranscript
                                 clientPubBytes
                          then await (closeSession (the (sessionId params))) (\<lambda>_.
                                 throw CLIENT_SIGNATURE_INVALID)
                          else update_session (the (sessionId params))
                                 (\<lambda>x. x\<lparr>clientVerified := True\<rparr>))))"

definition nmFinishHandshake :: "lib \<Rightarrow> nm_params \<Rightarrow> unit io" where
  "nmFinishHandshake = nmFinishHandshake_with Undefined"

definition nmCloseSession :: "nm_params \<Rightarrow> unit io" where
  "nmCloseSession params =
     (if \<not> truthy (sessionId params) then throw MISSING_SESSION_ID
      else closeSession (the (sessionId params)))"

definition checkExtensionPairingStatus_with :: "client_ref \<Rightarrow> nm_params \<Rightarrow> bool io" where
  "checkExtensionPairingStatus_with arg params =
     await getNativeMessagingEnabled (\<lambda>enabled.
       if \<not> enabled then throw NATIVE_MESSAGING_DISABLED
       else if \<not> truthy (clientEd25519PublicKeyB64 params)
       then throw CLIENT_PUBLIC_KEY_REQUIRED
       else
         await (getClientIdentityPublicKey arg) (\<lambda>storedClientPubB64.
         ret (storedClientPubB64 = clientEd25519PublicKeyB64 params)))"

definition checkExtensionPairingStatus :: "nm_params \<Rightarrow> bool io" where
  "checkExtensionPairingStatus = checkExtensionPairingStatus_with Undefined"

definition nmResetPairing :: "lib \<Rightarrow> client_ref \<Rightarrow> (nat \<times> identity) io" where
  "nmResetPairing L this_client =
     await clearAllSessions (\<lambda>clearedSessions.
     await (resetIdentity L this_client) (\<lambda>newIdentity.
     ret (clearedSessions, newIdentity)))"

text \<open>
  A computation that does not consult the native-messaging flag: whatever the flag says,
  it returns the same and changes the rest of the state in the same way.
\<close>

definition flag_blind :: "'a io \<Rightarrow> bool" where
  "flag_blind m =
     (\<forall>w b. m (w\<lparr>nativeMessagingEnabled := b\<rparr>) =
            (fst (m w), (snd (m w))\<lparr>nativeMessagingEnabled := b\<rparr>))"

subsection \<open>A concrete library for evaluation\<close>

text \<open>
  To run the model on concrete requests the record \<open>L\<close> needs values.  \<open>jest_lib\<close> takes
  base64 as Node implements it (decoding stops at \<open>=\<close>, reads \<open>-\<close> and \<open>_\<close> as \<open>+\<close> and
  \<open>/\<close>, and skips every other character outside the alphabet), and the mock of sodium-native from the
  repository's test-suite (appIdentity.test.js): its \<^verbatim>\<open>crypto_hash_sha256\<close>, and key pairs
  filled with 1, 2 and 3, 4.  The mock has no signature, no secretbox and no scalar
  multiplication; small stand-ins take their place.
\<close>

definition b64chars :: string where
  "b64chars = ''ABCDEFGHIJKLMNOPQRSTUVWXYZabcdefghijklmnopqrstuvwxyz0123456789+/''"

fun b64encode :: "bytes \<Rightarrow> string" where
  "b64encode (a # b # c # r) =
     (let n = (unat a * 256 + unat b) * 256 + unat c
      in b64chars ! (n div 262144) # b64chars ! (n div 4096 mod 64) #
         b64chars ! (n div 64 mod 64) # b64chars ! (n mod 64) # b64encode r)"
| "b64encode [a, b] =
     (let n = (unat a * 256 + unat b) * 4
      in [b64chars ! (n div 4096), b64chars ! (n div 64 mod 64), b64chars ! (n mod 64),
          CHR ''=''])"
| "b64encode [a] =
     (let n = unat a * 16
      in [b64chars ! (n div 64), b64chars ! (n mod 64), CHR ''='', CHR ''=''])"
| "b64encode [] = []"

fun index_from :: "nat \<Rightarrow> char \<Rightarrow> string \<Rightarrow> nat option" where
  "index_from n c [] = None"
| "index_from n c (x # xs) = (if c = x then Some n else index_from (n + 1) c xs)"

fun sextets :: "string \<Rightarrow> nat list" where
  "sextets [] = []"
| "sextets (c # cs) =
     (if c = CHR ''='' then []
      else if c = CHR ''-'' then 62 # sextets cs
      else if c = CHR ''_'' then 63 # sextets cs
      else (case index_from 0 c b64chars of
              None \<Rightarrow> sextets cs
            | Some i \<Rightarrow> i # sextets cs))"

fun b64groups :: "nat list \<Rightarrow> bytes" where
  "b64groups (s0 # s1 # s2 # s3 # r) =
     (let n = ((s0 * 64 + s1) * 64 + s2) * 64 + s3
      in of_nat (n div 65536) # of_nat (n div 256 mod 256) # of_nat (n mod 256) # b64groups r)"
| "b64groups [s0, s1, s2] =
     (let n = (s0 * 64 + s1) * 64 + s2 in [of_nat (n div 1024), of_nat (n div 4 mod 256)])"
| "b64groups [s0, s1] = [of_nat ((s0 * 64 + s1) div 16)]"
| "b64groups _ = []"

definition b64decode :: "string \<Rightarrow> bytes" where
  "b64decode s = b64groups (sextets s)"

text \<open>
  The mock of the test-suite:
  \<^verbatim>\<open>acc = (acc + input[i] + i) % 256\<close> over the input, then \<^verbatim>\<open>out[i] = (acc + i) % 256\<close>.
\<close>

fun jest_acc :: "nat \<Rightarrow> nat \<Rightarrow> bytes \<Rightarrow> nat" where
  "jest_acc acc i [] = acc"
| "jest_acc acc i (b # bs) = jest_acc ((acc + unat b + i) mod 256) (i + 1) bs"

definition jest_sha256 :: "bytes \<Rightarrow> nat \<Rightarrow> byte" where
  "jest_sha256 input i = of_nat ((jest_acc 0 0 input + i) mod 256)"

definition checksum :: "bytes \<Rightarrow> byte" where
  "checksum bs = foldr (+) bs 0"

definition toy_sign :: "bytes \<Rightarrow> bytes \<Rightarrow> bytes" where
  "toy_sign msg sk = replicate 64 (checksum (drop 32 sk @ msg))"

definition toy_verify :: "bytes \<Rightarrow> bytes \<Rightarrow> bytes \<Rightarrow> bool" where
  "toy_verify sig msg pk = (sig = replicate 64 (checksum (pk @ msg)))"

definition toy_seal :: "bytes \<Rightarrow> bytes \<Rightarrow> bytes \<Rightarrow> bytes" where
  "toy_seal msg nonce k =
     replicate 16 (checksum (k @ nonce @ msg)) @ map (\<lambda>b. b + checksum (k @ nonce)) msg"

definition toy_open :: "bytes \<Rightarrow> bytes \<Rightarrow> bytes \<Rightarrow> bytes option" where
  "toy_open ct nonce k =
     (let msg = map (\<lambda>b. b - checksum (k @ nonce)) (drop 16 ct)
      in if take 16 ct = replicate 16 (checksum (k @ nonce @ msg)) then Some msg else None)"

definition toy_json :: "client_data \<Rightarrow> string" where
  "toy_json d =
     ''{publicKey:'' @ (case publicKey d of None \<Rightarrow> ''null'' | Some s \<Rightarrow> s) @
     '',pairingState:'' @ (case pairingState d of None \<Rightarrow> ''null'' | Some s \<Rightarrow> s) @ ''}''"

definition jest_lib :: lib where
  "jest_lib =
     \<lparr>toBase64 = b64encode,
      fromBase64 = b64decode,
      crypto_hash_sha256 = jest_sha256,
      crypto_sign_verify_detached = toy_verify,
      crypto_sign_detached = toy_sign,
      crypto_secretbox_easy = toy_seal,
      crypto_secretbox_open_easy = toy_open,
      crypto_scalarmult = map2 (+),
      crypto_sign_keypair = (\<lambda>n. (replicate 32 1, replicate 64 2)),
      crypto_box_keypair = (\<lambda>n. (replicate 32 3, replicate 32 4)),
      randombytes_buf = (\<lambda>n len. replicate len (of_nat n)),
      JSON_stringify = toy_json\<rparr>"

text \<open>A first run: nothing stored, the vault readable and writable, no session.\<close>

definition fresh :: world where
  "fresh =
     \<lparr>vault_store = Map.empty, vault_get_ok = True, vault_add_ok = True, vault_wraps = False,
      vault_initialized = False, localStorage = Map.empty, MEMORY_IDENTITY = None,
      sessions = Map.empty, nativeMessagingEnabled = True, sign_keypair_calls = 0,
      box_keypair_calls = 0, randombytes_calls = 0, now = ''2024-01-01T00:00:00.000Z''\<rparr>"

text \<open>The key of an extension: the base64 text of 32 bytes 0x2A.\<close>

definition extensionKey :: string where
  "extensionKey = ''KioqKioqKioqKioqKioqKioqKioqKioqKioqKioqKio=''"

text \<open>
  The pairing of that extension on a first run: its key is pinned, the pairing is
  confirmed, and then the same key is pinned once more.
\<close>

definition pinned_world :: world where
  "pinned_world = after (setClientIdentityPublicKey Client (Some extensionKey) PENDING) fresh"

definition confirmed_world :: world where
  "confirmed_world = after (confirmClientPairing Client extensionKey) pinned_world"

definition repinned_world :: world where
  "repinned_world =
     after (setClientIdentityPublicKey Client (Some extensionKey) PENDING) confirmed_world"


text \<open>
  A store that holds the two key blobs of the test-suite (public keys of 32 bytes 5 and
  7, private keys of bytes 6 and 8) and neither a creation date nor a pairing secret.
\<close>

definition blobs_only :: world where
  "blobs_only =
     fresh\<lparr>vault_store :=
       [ENC_KEY_ED25519 \<mapsto> Str (b64encode (replicate 32 5 @ replicate 64 6)),
        ENC_KEY_X25519 \<mapsto> Str (b64encode (replicate 32 7 @ replicate 32 8))]\<rparr>"

text \<open>A first run with one live session \<open>s1\<close>, as beginHandshake leaves it.\<close>

definition session0 :: session where
  "session0 =
     \<lparr>key = replicate 32 9, transcript = replicate 96 5, sendSeq = 0, lastRecvSeq = 0,
      clientVerified = False\<rparr>"

definition live :: world where
  "live = fresh\<lparr>sessions := [''s1'' \<mapsto> session0]\<rparr>"

text \<open>
  Requests.  \<open>no_params\<close> is a request without parameters; a pairing request carries a
  token and the key of the extension; a finish request names the session \<open>s1\<close> and
  carries a signature.  \<open>paired_live\<close> is the first run after the key of the extension
  was pinned, with the live session.
\<close>

definition no_params :: nm_params where
  "no_params =
     \<lparr>pairingToken = None, clientEd25519PublicKeyB64 = None, extEphemeralPubB64 = None,
      sessionId = None, clientSigB64 = None\<rparr>"

definition pairing_request :: "string \<Rightarrow> nm_params" where
  "pairing_request token =
     no_params\<lparr>pairingToken := Some token, clientEd25519PublicKeyB64 := Some extensionKey\<rparr>"

definition finish_request :: "bytes \<Rightarrow> nm_params" where
  "finish_request sig = no_params\<lparr>sessionId := Some ''s1'', clientSigB64 := Some (b64encode sig)\<rparr>"

definition paired_live :: world where
  "paired_live = pinned_world\<lparr>sessions := [''s1'' \<mapsto> session0]\<rparr>"

text \<open>The paired run with the live session, after the user switched native messaging off.\<close>

definition disabled_live :: world where
  "disabled_live = paired_live\<lparr>nativeMessagingEnabled := False\<rparr>"

section \<open>Properties\<close>

subsection \<open>Evaluation\<close>

lemma replicate_numeral_unfold: "replicate (numeral k) x = x # replicate (pred_numeral k) x"
  by (simp add: numeral_eq_Suc)

lemma jest_lib_sel [simp]:
  "toBase64 jest_lib = b64encode"
  "fromBase64 jest_lib = b64decode"
  "crypto_hash_sha256 jest_lib = jest_sha256"
  "crypto_sign_verify_detached jest_lib = toy_verify"
  "crypto_sign_detached jest_lib = toy_sign"
  "crypto_secretbox_easy jest_lib = toy_seal"
  "crypto_secretbox_open_easy jest_lib = toy_open"
  "crypto_sign_keypair jest_lib = (\<lambda>n. (replicate 32 1, replicate 64 2))"
  "crypto_box_keypair jest_lib = (\<lambda>n. (replicate 32 3, replicate 32 4))"
  "randombytes_buf jest_lib = (\<lambda>n len. replicate len (of_nat n))"
  by (simp_all add: jest_lib_def)

lemmas format_defs =
  readUInt32BE_def subarray_def padStart_def toHex_def toUpperCase_def upperChar_def
  toString.simps

lemma sessions_live [simp]: "sessions live ''s1'' = Some session0"
  by (simp add: live_def)

subsection \<open>The exception monad\<close>

lemma await_ret [simp]: "await (ret x) f = f x"
  by (rule ext) (simp add: await_def ret_def)

lemma await_throw [simp]: "await (throw e) f = throw e"
  by (rule ext) (simp add: await_def throw_def)

lemma try_catch_ret [simp]: "try_catch (ret x) h = ret x"
  by (rule ext) (simp add: try_catch_def ret_def)

lemma try_catch_throw [simp]: "try_catch (throw e) h = h e"
  by (rule ext) (simp add: try_catch_def throw_def)

lemma dot_catch_ret [simp]: "dot_catch (ret x) h = ret x"
  by (rule ext) (simp add: dot_catch_def ret_def)

lemma dot_catch_throw [simp]:
  "dot_catch (throw e) h = (if e = TypeError then throw e else h e)"
  by (rule ext) (simp add: dot_catch_def throw_def)

lemma await_assoc: "await (await m f) g = await m (\<lambda>x. await (f x) g)"
  by (rule ext) (simp add: await_def split: prod.splits sum.splits)

lemma await_if: "await (if c then a else b) f = (if c then await a f else await b f)"
  by simp

lemma await_Inr: "m w = (Inr a, w') \<Longrightarrow> await m f w = f a w'"
  by (simp add: await_def)

lemma await_Inl: "m w = (Inl e, w') \<Longrightarrow> await m f w = (Inl e, w')"
  by (simp add: await_def)

text \<open>
  Applied to a state, \<open>ret\<close> and \<open>throw\<close> are pairs; the laws above in that form.
\<close>

lemma await_Pair_Inr [simp]: "await (Pair (Inr x)) f = f x"
  by (rule ext) (simp add: await_def)

lemma await_Pair_Inl [simp]: "await (Pair (Inl e)) f = Pair (Inl e)"
  by (rule ext) (simp add: await_def)

lemma try_catch_Pair_Inr [simp]: "try_catch (Pair (Inr x)) h = Pair (Inr x)"
  by (rule ext) (simp add: try_catch_def)

lemma try_catch_Pair_Inl [simp]: "try_catch (Pair (Inl e)) h = h e"
  by (rule ext) (simp add: try_catch_def)

lemma dot_catch_Pair_Inr [simp]: "dot_catch (Pair (Inr x)) h = Pair (Inr x)"
  by (rule ext) (simp add: dot_catch_def)

lemma dot_catch_Pair_Inl [simp]:
  "dot_catch (Pair (Inl e)) h = (if e = TypeError then Pair (Inl e) else h e)"
  by (rule ext) (simp add: dot_catch_def)

declare ret_def [simp] throw_def [simp] lift_def [simp]

lemmas io_defs = await_def try_catch_def dot_catch_def

lemmas prim_defs =
  getSession_def closeSession_def clearAllSessions_def putSession_def update_session_def
  randomBytes_def sign_keypair_def box_keypair_def new_Date_toISOString_def
  getMemIdentity_def setMemIdentity_def getNativeMessagingEnabled_def
  localStorage_setItem_def localStorage_removeItem_def encryptionGet_def encryptionAdd_def
  encryptionGetStatus_def encryptionInit_def

text \<open>Each primitive hands its value and the state it leaves to what follows.\<close>

lemma await_getSession [simp]: "await (getSession sid) f w = f (sessions w sid) w"
  by (simp add: await_def getSession_def)

lemma await_closeSession [simp]:
  "await (closeSession sid) f w = f () (w\<lparr>sessions := (sessions w)(sid := None)\<rparr>)"
  by (simp add: await_def closeSession_def)

lemma await_clearAllSessions [simp]:
  "await clearAllSessions f w = f (card (dom (sessions w))) (w\<lparr>sessions := Map.empty\<rparr>)"
  by (simp add: await_def clearAllSessions_def)

lemma await_putSession [simp]:
  "await (putSession sid s) f w = f () (w\<lparr>sessions := (sessions w)(sid \<mapsto> s)\<rparr>)"
  by (simp add: await_def putSession_def)

lemma update_session_Some:
  "sessions w sid = Some s \<Longrightarrow>
   update_session sid g w = (Inr (), w\<lparr>sessions := (sessions w)(sid \<mapsto> g s)\<rparr>)"
  by (simp add: update_session_def)

lemma await_update_session:
  "sessions w sid = Some s \<Longrightarrow>
   await (update_session sid g) f w = f () (w\<lparr>sessions := (sessions w)(sid \<mapsto> g s)\<rparr>)"
  by (simp add: await_def update_session_def)

lemma await_randomBytes [simp]:
  "await (randomBytes L n) f w =
     f (randombytes_buf L (randombytes_calls w) n)
       (w\<lparr>randombytes_calls := Suc (randombytes_calls w)\<rparr>)"
  by (simp add: await_def randomBytes_def)

lemma await_sign_keypair [simp]:
  "await (sign_keypair L) f w =
     f (crypto_sign_keypair L (sign_keypair_calls w))
       (w\<lparr>sign_keypair_calls := Suc (sign_keypair_calls w)\<rparr>)"
  by (simp add: await_def sign_keypair_def)

lemma await_box_keypair [simp]:
  "await (box_keypair L) f w =
     f (crypto_box_keypair L (box_keypair_calls w))
       (w\<lparr>box_keypair_calls := Suc (box_keypair_calls w)\<rparr>)"
  by (simp add: await_def box_keypair_def)

lemma await_new_Date [simp]: "await new_Date_toISOString f w = f (now w) w"
  by (simp add: await_def new_Date_toISOString_def)

lemma await_getMemIdentity [simp]: "await getMemIdentity f w = f (MEMORY_IDENTITY w) w"
  by (simp add: await_def getMemIdentity_def)

lemma await_setMemIdentity [simp]:
  "await (setMemIdentity m) f w = f () (w\<lparr>MEMORY_IDENTITY := m\<rparr>)"
  by (simp add: await_def setMemIdentity_def)

lemma await_getNativeMessagingEnabled [simp]:
  "await getNativeMessagingEnabled f w = f (nativeMessagingEnabled w) w"
  by (simp add: await_def getNativeMessagingEnabled_def)

lemma await_localStorage_setItem [simp]:
  "await (localStorage_setItem k v) f w =
     f () (w\<lparr>localStorage := (localStorage w)(k \<mapsto> v)\<rparr>)"
  by (simp add: await_def localStorage_setItem_def)

lemma await_localStorage_removeItem [simp]:
  "await (localStorage_removeItem k) f w =
     f () (w\<lparr>localStorage := (localStorage w)(k := None)\<rparr>)"
  by (simp add: await_def localStorage_removeItem_def)

subsection \<open>The vault client\<close>

lemma readKey_eq:
  "readKey w k =
     (if vault_get_ok w
      then (case vault_store w k of None \<Rightarrow> None | Some v \<Rightarrow> if falsy v then None else Some v)
      else None)"
  by (simp add: readKey_def readReply_def reply_of_def normalizeEncryptionGet_def
      split: option.splits)

lemma await_get_catch [simp]:
  "await (dot_catch (encryptionGet Client k) (\<lambda>_. ret RNull)) f w = f (readReply w k) w"
  by (simp add: await_def dot_catch_def encryptionGet_def readReply_def)

lemma await_get_catch_Undefined [simp]:
  "await (dot_catch (encryptionGet Undefined k) h) f w = (Inl TypeError, w)"
  by (simp add: await_def dot_catch_def encryptionGet_def)

lemma normalize_reply [simp]: "normalizeEncryptionGet (readReply w k) = readKey w k"
  by (simp add: readKey_def)

lemma await_encryptionAdd [simp]:
  "await (encryptionAdd Client k v) f w =
     (if vault_add_ok w then f () (w\<lparr>vault_store := (vault_store w)(k \<mapsto> v)\<rparr>)
      else (Inl VaultRejected, w))"
  by (simp add: await_def encryptionAdd_def)

lemma await_try_add_throw [simp]:
  "await (try_catch (encryptionAdd Client k v) (\<lambda>_. throw e)) f w =
     (if vault_add_ok w then f () (w\<lparr>vault_store := (vault_store w)(k \<mapsto> v)\<rparr>)
      else (Inl e, w))"
  by (simp add: io_defs encryptionAdd_def)

lemma encryptionAdd_Client:
  "encryptionAdd Client k v w =
     (if vault_add_ok w then (Inr (), w\<lparr>vault_store := (vault_store w)(k \<mapsto> v)\<rparr>)
      else (Inl VaultRejected, w))"
  by (simp add: encryptionAdd_def)

lemma encryptionAdd_Undefined [simp]: "encryptionAdd Undefined k v w = (Inl TypeError, w)"
  by (simp add: encryptionAdd_def)

lemma getClientData_Client [simp]: "getClientData Client w = (Inr (storedData w), w)"
proof (cases "readKey w ENC_KEY_CLIENT_DATA")
  case None
  then show ?thesis
    by (simp add: getClientData_def storedData_def)
next
  case (Some v)
  then show ?thesis
    by (cases v) (simp_all add: getClientData_def storedData_def JSON_parse_def)
qed

lemma getClientData_Undefined [simp]: "getClientData Undefined w = (Inl TypeError, w)"
  by (simp add: getClientData_def)

lemma await_getClientData [simp]: "await (getClientData Client) f w = f (storedData w) w"
  by (simp add: await_def)

lemma await_getClientData_Undefined [simp]:
  "await (getClientData Undefined) f w = (Inl TypeError, w)"
  by (simp add: await_def)

lemma getClientIdentityPublicKey_Client:
  "getClientIdentityPublicKey Client w =
     (Inr (case storedData w of None \<Rightarrow> None | Some d \<Rightarrow> orNull (publicKey d)), w)"
  by (simp add: getClientIdentityPublicKey_def)

lemma getClientIdentityPublicKey_Undefined [simp]:
  "getClientIdentityPublicKey Undefined w = (Inl TypeError, w)"
  by (simp add: getClientIdentityPublicKey_def)

lemma truthy_orNull [simp]: "truthy (orNull v) = truthy v"
  by (simp add: orNull_def truthy_def)



lemma pairing_states_nonempty [simp]: "PENDING \<noteq> []" "CONFIRMED \<noteq> []" "PENDING \<noteq> CONFIRMED"
  by (simp_all add: PENDING_def CONFIRMED_def)

lemma fresh_sel [simp]:
  "vault_store fresh = Map.empty" "vault_get_ok fresh" "vault_add_ok fresh"
  "\<not> vault_wraps fresh" "\<not> vault_initialized fresh" "localStorage fresh = Map.empty"
  "MEMORY_IDENTITY fresh = None" "sessions fresh = Map.empty" "nativeMessagingEnabled fresh"
  "sign_keypair_calls fresh = 0" "box_keypair_calls fresh = 0" "randombytes_calls fresh = 0"
  by (simp_all add: fresh_def)

lemma extensionKey_nonempty [simp]: "extensionKey \<noteq> []"
  by (simp add: extensionKey_def)

lemma ENC_KEY_distinct [simp]:
  "ENC_KEY_ED25519 \<noteq> ENC_KEY_X25519" "ENC_KEY_ED25519 \<noteq> ENC_KEY_CREATION_DATE"
  "ENC_KEY_ED25519 \<noteq> ENC_KEY_CLIENT_DATA" "ENC_KEY_ED25519 \<noteq> ENC_KEY_PAIRING_SECRET"
  "ENC_KEY_X25519 \<noteq> ENC_KEY_ED25519" "ENC_KEY_X25519 \<noteq> ENC_KEY_CREATION_DATE"
  "ENC_KEY_X25519 \<noteq> ENC_KEY_CLIENT_DATA" "ENC_KEY_X25519 \<noteq> ENC_KEY_PAIRING_SECRET"
  "ENC_KEY_CREATION_DATE \<noteq> ENC_KEY_ED25519" "ENC_KEY_CREATION_DATE \<noteq> ENC_KEY_X25519"
  "ENC_KEY_CREATION_DATE \<noteq> ENC_KEY_CLIENT_DATA"
  "ENC_KEY_CREATION_DATE \<noteq> ENC_KEY_PAIRING_SECRET"
  "ENC_KEY_CLIENT_DATA \<noteq> ENC_KEY_ED25519" "ENC_KEY_CLIENT_DATA \<noteq> ENC_KEY_X25519"
  "ENC_KEY_CLIENT_DATA \<noteq> ENC_KEY_CREATION_DATE"
  "ENC_KEY_CLIENT_DATA \<noteq> ENC_KEY_PAIRING_SECRET"
  "ENC_KEY_PAIRING_SECRET \<noteq> ENC_KEY_ED25519" "ENC_KEY_PAIRING_SECRET \<noteq> ENC_KEY_X25519"
  "ENC_KEY_PAIRING_SECRET \<noteq> ENC_KEY_CREATION_DATE"
  "ENC_KEY_PAIRING_SECRET \<noteq> ENC_KEY_CLIENT_DATA"
  by (simp_all add: ENC_KEY_ED25519_def ENC_KEY_X25519_def ENC_KEY_CREATION_DATE_def
      ENC_KEY_CLIENT_DATA_def ENC_KEY_PAIRING_SECRET_def)

lemma setClientIdentityPublicKey_Client:
  "setClientIdentityPublicKey Client pk st w =
     (if \<not> truthy pk then (Inl MISSING_CLIENT_PUBLIC_KEY, w)
      else if vault_add_ok w
      then (Inr (), w\<lparr>vault_store := (vault_store w)
              (ENC_KEY_CLIENT_DATA \<mapsto> Json \<lparr>publicKey = pk, pairingState = Some st\<rparr>)\<rparr>)
      else (Inl VaultRejected, w))"
  by (simp add: setClientIdentityPublicKey_def encryptionAdd_Client)

lemma storedData_store:
  "vault_get_ok w \<Longrightarrow>
   storedData (w\<lparr>vault_store := (vault_store w)(ENC_KEY_CLIENT_DATA \<mapsto> Json d)\<rparr>) = Some d"
  by (simp add: storedData_def readKey_eq falsy_def)

lemma storedData_localStorage [simp]:
  "storedData (w\<lparr>localStorage := l\<rparr>) = storedData w"
  by (simp add: storedData_def readKey_eq)

subsection \<open>The pairing code\<close>

lemma PAIRING_CODE_TAG_utf8: "PAIRING_CODE_TAG = map of_char ''pearpass/pairingcode/v1''"
  by (simp add: PAIRING_CODE_TAG_def)

lemma length_PAIRING_CODE_TAG: "length PAIRING_CODE_TAG = 23"
  by (simp add: PAIRING_CODE_TAG_def)

text \<open>
  With a 32-byte secret and a 32-byte key the fourth \<^verbatim>\<open>input.set\<close> writes the key over
  bytes 32 to 63 of \<open>tag \<parallel> secret \<parallel> pk\<close>: what is hashed is the tag, the first nine bytes
  of the secret, the key, and the key once more from its tenth byte on.
\<close>

lemma pairingCodeInput_32:
  assumes "length secret = 32" and "length pk = 32"
  shows "pairingCodeInput secret pk = Inr (PAIRING_CODE_TAG @ take 9 secret @ pk @ drop 9 pk)"
  using assms
  by (simp add: pairingCodeInput_def bindE_def Uint8Array_set_def length_PAIRING_CODE_TAG)

lemma pairingCodeInput_differs:
  assumes "length secret = 32" and "length pk = 32"
    and "pairingCodeInput secret pk = Inr (PAIRING_CODE_TAG @ secret @ pk)"
  shows "drop 9 secret = take 23 pk \<and> take 9 pk = drop 23 pk"
proof -
  from assms have eq: "take 9 secret @ pk @ drop 9 pk = secret @ pk"
    by (simp add: pairingCodeInput_32)
  have s: "secret = take 9 secret @ drop 9 secret"
    by simp
  from eq have "take 9 secret @ (pk @ drop 9 pk) = take 9 secret @ (drop 9 secret @ pk)"
    by (metis append_assoc append_take_drop_id)
  then have eq2: "pk @ drop 9 pk = drop 9 secret @ pk"
    by simp
  from eq2 have "take 23 (pk @ drop 9 pk) = take 23 (drop 9 secret @ pk)"
    by simp
  with assms have a: "take 23 pk = drop 9 secret"
    by simp
  from eq2 have "drop 23 (pk @ drop 9 pk) = drop 23 (drop 9 secret @ pk)"
    by simp
  with assms have "drop 23 pk @ drop 9 pk = pk"
    by simp
  then have "take 9 (drop 23 pk @ drop 9 pk) = take 9 pk"
    by simp
  with assms have b: "drop 23 pk = take 9 pk"
    by simp
  from a b show ?thesis
    by simp
qed

text \<open>
  Whatever the hash function: two secrets that agree on their first nine bytes give the
  same pairing code.
\<close>

lemma getPairingCode_ignores_secret_tail:
  assumes "length (fromBase64 L s1) = 32" and "length (fromBase64 L s2) = 32"
    and "length (fromBase64 L pkB64) = 32"
    and "take 9 (fromBase64 L s1) = take 9 (fromBase64 L s2)"
  shows "getPairingCode L pkB64 s1 = getPairingCode L pkB64 s2"
  using assms by (simp add: getPairingCode_def pairingCodeInput_32)

lemma formatPairingCode_take6: "formatPairingCode (take 6 out) = formatPairingCode out"
  by (simp add: formatPairingCode_def readUInt32BE_def subarray_def drop_take)

text \<open>
  C1.  getPairingCode does not hash \<open>tag \<parallel> secret \<parallel> pk\<close>.  For the secret of 32 bytes
  0x07 and the key of 32 bytes 0x2A (the values of the test-suite), under the hash of
  the test-suite: the buffer that is hashed is the tag, nine bytes 0x07 and fifty-five
  bytes 0x2A, and the code returned is not the code of the documented preimage.
\<close>

theorem getPairingCode_hashes_overlaid_input:
  "fromBase64 jest_lib ''BwcHBwcHBwcHBwcHBwcHBwcHBwcHBwcHBwcHBwcHBwc='' = replicate 32 7 \<and>
   fromBase64 jest_lib ''KioqKioqKioqKioqKioqKioqKioqKioqKioqKioqKio='' = replicate 32 42 \<and>
   pairingCodeInput (replicate 32 7) (replicate 32 42) =
     Inr (PAIRING_CODE_TAG @ replicate 9 7 @ replicate 55 42) \<and>
   getPairingCode jest_lib ''KioqKioqKioqKioqKioqKioqKioqKioqKioqKioqKio=''
     ''BwcHBwcHBwcHBwcHBwcHBwcHBwcHBwcHBwcHBwcHBwc='' = Inr ''196878-CFD0'' \<and>
   pairingCode_spec jest_lib (replicate 32 7) (replicate 32 42) = ''005545-AAAB''"
proof -
  have d1: "b64decode ''BwcHBwcHBwcHBwcHBwcHBwcHBwcHBwcHBwcHBwcHBwc='' = replicate 32 7"
    by (simp add: b64decode_def b64chars_def replicate_numeral_unfold)
  have d2: "b64decode ''KioqKioqKioqKioqKioqKioqKioqKioqKioqKioqKio='' = replicate 32 42"
    by (simp add: b64decode_def b64chars_def replicate_numeral_unfold)
  have i: "pairingCodeInput (replicate 32 7) (replicate 32 42) =
      Inr (PAIRING_CODE_TAG @ replicate 9 7 @ replicate 55 42)"
    by (simp add: pairingCodeInput_32 replicate_numeral_unfold)
  have a1: "jest_acc 0 0 (PAIRING_CODE_TAG @ replicate 9 7 @ replicate 55 42) = 203"
    by (simp add: PAIRING_CODE_TAG_def replicate_numeral_unfold)
  have h1: "take 6 (map (jest_sha256 (PAIRING_CODE_TAG @ replicate 9 7 @ replicate 55 42))
      [0..<32]) = [203, 204, 205, 206, 207, 208]"
    by (simp add: jest_sha256_def a1 take_map upt_rec)
  have f1: "formatPairingCode [203, 204, 205, 206, 207, 208] = ''196878-CFD0''"
    unfolding formatPairingCode_def Let_def by (simp add: format_defs)
  have c: "getPairingCode jest_lib ''KioqKioqKioqKioqKioqKioqKioqKioqKioqKioqKio=''
      ''BwcHBwcHBwcHBwcHBwcHBwcHBwcHBwcHBwcHBwcHBwc='' = Inr ''196878-CFD0''"
  proof -
    have "getPairingCode jest_lib ''KioqKioqKioqKioqKioqKioqKioqKioqKioqKioqKio=''
        ''BwcHBwcHBwcHBwcHBwcHBwcHBwcHBwcHBwcHBwcHBwc='' =
        Inr (formatPairingCode
          (map (jest_sha256 (PAIRING_CODE_TAG @ replicate 9 7 @ replicate 55 42)) [0..<32]))"
      unfolding getPairingCode_def Let_def by (simp add: d1 d2 i bindE_def)
    also have "\<dots> = Inr (formatPairingCode (take 6
          (map (jest_sha256 (PAIRING_CODE_TAG @ replicate 9 7 @ replicate 55 42)) [0..<32])))"
      by (simp only: formatPairingCode_take6)
    finally show ?thesis
      by (simp only: h1 f1)
  qed
  have a2: "jest_acc 0 0 (PAIRING_CODE_TAG @ replicate 32 7 @ replicate 32 42) = 166"
    by (simp add: PAIRING_CODE_TAG_def replicate_numeral_unfold)
  have sp: "pairingCode_spec jest_lib (replicate 32 7) (replicate 32 42) = ''005545-AAAB''"
  proof -
    have "pairingCode_spec jest_lib (replicate 32 7) (replicate 32 42) =
        padStart 6 CHR ''0'' (toString 5545) @ ''-'' @ padStart 4 CHR ''0'' (toStringHexUpper 43691)"
      unfolding pairingCode_spec_def Let_def by (simp add: jest_sha256_def a2)
    then show ?thesis
      by (simp add: padStart_def toString.simps toStringHexUpper.simps replicate_numeral_unfold)
  qed
  from d1 d2 i c sp show ?thesis
    by simp
qed

subsection \<open>Replay protection (recordIncomingSeq)\<close>

lemma recordIncomingSeq_live:
  assumes "sessions w sid = Some s"
  shows "recordIncomingSeq sid v w =
    (case v of
       JNumber q \<Rightarrow>
         if q \<le> lastRecvSeq s then (Inl REPLAY_DETECTED, w)
         else (Inr (), w\<lparr>sessions := (sessions w)(sid \<mapsto> s\<lparr>lastRecvSeq := q\<rparr>)\<rparr>)
     | _ \<Rightarrow> (Inl INVALID_SEQ, w))"
  using assms
  by (simp add: recordIncomingSeq_def update_session_Some split: js_value.splits)

text \<open>
  Every accepted number is above the last one recorded before it, so the accepted
  numbers are strictly increasing, whatever is offered.
\<close>

lemma acceptedSeqs_increasing:
  "sessions w sid = Some s \<Longrightarrow> sorted_wrt (<) (lastRecvSeq s # acceptedSeqs sid vs w)"
proof (induction vs arbitrary: w s)
  case Nil
  then show ?case by simp
next
  case (Cons v vs)
  show ?case
  proof (cases v)
    case (JNumber q)
    show ?thesis
    proof (cases "q \<le> lastRecvSeq s")
      case True
      with Cons.prems JNumber have "acceptedSeqs sid (v # vs) w = acceptedSeqs sid vs w"
        by (simp add: recordIncomingSeq_live)
      with Cons.IH [OF Cons.prems] show ?thesis by simp
    next
      case False
      let ?w = "w\<lparr>sessions := (sessions w)(sid \<mapsto> s\<lparr>lastRecvSeq := q\<rparr>)\<rparr>"
      from False Cons.prems JNumber
      have eq: "acceptedSeqs sid (v # vs) w = q # acceptedSeqs sid vs ?w"
        by (simp add: recordIncomingSeq_live)
      have "sessions ?w sid = Some (s\<lparr>lastRecvSeq := q\<rparr>)" by simp
      from Cons.IH [OF this] have "sorted_wrt (<) (q # acceptedSeqs sid vs ?w)" by simp
      with False eq show ?thesis by auto
    qed
  next
    case JNaN
    with Cons.prems have "acceptedSeqs sid (v # vs) w = acceptedSeqs sid vs w"
      by (simp add: recordIncomingSeq_live)
    with Cons.IH [OF Cons.prems] show ?thesis by simp
  next
    case JInfinity
    with Cons.prems have "acceptedSeqs sid (v # vs) w = acceptedSeqs sid vs w"
      by (simp add: recordIncomingSeq_live)
    with Cons.IH [OF Cons.prems] show ?thesis by simp
  next
    case JNegInfinity
    with Cons.prems have "acceptedSeqs sid (v # vs) w = acceptedSeqs sid vs w"
      by (simp add: recordIncomingSeq_live)
    with Cons.IH [OF Cons.prems] show ?thesis by simp
  next
    case JNotNumber
    with Cons.prems have "acceptedSeqs sid (v # vs) w = acceptedSeqs sid vs w"
      by (simp add: recordIncomingSeq_live)
    with Cons.IH [OF Cons.prems] show ?thesis by simp
  qed
qed

text \<open>
  C5, as stated, fails: recordIncomingSeq has no integer test.  On the live session
  \<open>s1\<close>, whose last recorded number is 0, the argument 1/2 is accepted and recorded.
\<close>

theorem recordIncomingSeq_accepts_fraction:
  "fst (recordIncomingSeq ''s1'' (JNumber (1 / 2)) live) = Inr () \<and>
   map_option lastRecvSeq (sessions (snd (recordIncomingSeq ''s1'' (JNumber (1 / 2)) live)) ''s1'')
     = Some (1 / 2) \<and>
   of_int \<lfloor>1 / 2 :: rat\<rfloor> \<noteq> (1 / 2 :: rat)"
proof -
  have "\<lfloor>1 / 2 :: rat\<rfloor> = 0"
    by (rule floor_unique) simp_all
  then show ?thesis
    by (simp add: recordIncomingSeq_live session0_def)
qed

text \<open>
  C5, amended.  On a live session recordIncomingSeq raises INVALID_SEQ exactly for the
  arguments that are not finite numbers, raises REPLAY_DETECTED exactly for the finite
  numbers (integers or not) that are at most \<open>lastRecvSeq\<close>, and accepts every other
  finite number, which becomes \<open>lastRecvSeq\<close>; a rejected call changes nothing.  Hence the
  numbers accepted within a session are strictly increasing.
\<close>

theorem recordIncomingSeq_replay_protection:
  assumes "sessions w sid = Some s"
  shows "(fst (recordIncomingSeq sid v w) = Inl INVALID_SEQ \<longleftrightarrow> \<not> isFiniteNumber v) \<and>
    (fst (recordIncomingSeq sid v w) = Inl REPLAY_DETECTED \<longleftrightarrow>
       (\<exists>q. v = JNumber q \<and> q \<le> lastRecvSeq s)) \<and>
    (fst (recordIncomingSeq sid v w) = Inr () \<longleftrightarrow>
       (\<exists>q. v = JNumber q \<and> lastRecvSeq s < q)) \<and>
    (\<forall>q. v = JNumber q \<and> lastRecvSeq s < q \<longrightarrow>
       snd (recordIncomingSeq sid v w) =
         w\<lparr>sessions := (sessions w)(sid \<mapsto> s\<lparr>lastRecvSeq := q\<rparr>)\<rparr>) \<and>
    (fst (recordIncomingSeq sid v w) \<noteq> Inr () \<longrightarrow> snd (recordIncomingSeq sid v w) = w) \<and>
    sorted_wrt (<) (lastRecvSeq s # acceptedSeqs sid vs w)"
  using assms acceptedSeqs_increasing [OF assms, of vs]
  by (cases v) (auto simp add: recordIncomingSeq_live isFiniteNumber_def)

text \<open>
  The replay scenario of the specification on the live session: 5 is accepted, the
  replayed 5 is refused, 6 is accepted.
\<close>

theorem recordIncomingSeq_replay_protection_witness:
  "sessions live ''s1'' = Some session0 \<and>
   fst (recordIncomingSeq ''s1'' (JNumber 5) live) = Inr () \<and>
   snd (recordIncomingSeq ''s1'' (JNumber 5) live) =
     live\<lparr>sessions := (sessions live)(''s1'' \<mapsto> session0\<lparr>lastRecvSeq := 5\<rparr>)\<rparr> \<and>
   fst (recordIncomingSeq ''s1'' JNaN live) = Inl INVALID_SEQ \<and>
   acceptedSeqs ''s1'' [JNumber 5, JNumber 5, JNumber 6] live = [5, 6] \<and>
   sorted_wrt (<) (lastRecvSeq session0 # acceptedSeqs ''s1'' [JNumber 5, JNumber 5, JNumber 6] live)"
  using recordIncomingSeq_replay_protection [of live "''s1''" session0 "JNumber 5"
      "[JNumber 5, JNumber 5, JNumber 6]"]
    recordIncomingSeq_replay_protection [of live "''s1''" session0 JNaN "[]"]
  by (simp add: session0_def isFiniteNumber_def recordIncomingSeq_live)

subsection \<open>Sealing and opening a frame\<close>

lemma encryptWithSession_live:
  assumes "sessions w sid = Some s"
  shows "encryptWithSession L sid plaintext w =
    (Inr (toBase64 L (randombytes_buf L (randombytes_calls w) crypto_secretbox_NONCEBYTES),
          toBase64 L (crypto_secretbox_easy L plaintext
            (randombytes_buf L (randombytes_calls w) crypto_secretbox_NONCEBYTES) (key s)),
          Suc (sendSeq s)),
     w\<lparr>randombytes_calls := Suc (randombytes_calls w),
       sessions := (sessions w)(sid \<mapsto> s\<lparr>sendSeq := Suc (sendSeq s)\<rparr>)\<rparr>)"
  using assms
  by (simp add: encryptWithSession_def await_update_session)

lemma decryptWithSession_live:
  assumes "sessions w sid = Some s"
  shows "decryptWithSession L sid nonce ciphertext w =
    (if length ciphertext < crypto_secretbox_MACBYTES then (Inl RangeError, w)
     else (case crypto_secretbox_open_easy L ciphertext nonce (key s) of
             None \<Rightarrow> (Inl DECRYPT_FAILED, w)
           | Some plaintext \<Rightarrow> (Inr plaintext, w)))"
  using assms
  by (simp add: decryptWithSession_def split: option.splits)

text \<open>
  C9.  On a live session, what encryptWithSession returns opens to the plaintext with
  decryptWithSession on the same session.  The nonce \<open>n\<close> is the one that the generator
  hands out, the ciphertext \<open>c\<close> is what the secretbox makes of the plaintext under the
  session key.  Assumed of the library, at these values: opening a box gives back what
  was sealed, a box is longer than its content by the authentication tag, and base64
  decodes what it encoded.
\<close>

theorem encrypt_then_decrypt:
  assumes "sessions w sid = Some s"
    and "n = randombytes_buf L (randombytes_calls w) crypto_secretbox_NONCEBYTES"
    and "c = crypto_secretbox_easy L plaintext n (key s)"
    and "crypto_secretbox_open_easy L c n (key s) = Some plaintext"
    and "length c = length plaintext + crypto_secretbox_MACBYTES"
    and "fromBase64 L (toBase64 L n) = n"
    and "fromBase64 L (toBase64 L c) = c"
    and "encryptWithSession L sid plaintext w = (Inr (nonceB64, ciphertextB64, seq), w')"
  shows "decryptWithSession L sid (fromBase64 L nonceB64) (fromBase64 L ciphertextB64) w' =
    (Inr plaintext, w')"
proof -
  from assms(1,2,3,8) have r: "nonceB64 = toBase64 L n" "ciphertextB64 = toBase64 L c"
    and w': "w' = w\<lparr>randombytes_calls := Suc (randombytes_calls w),
        sessions := (sessions w)(sid \<mapsto> s\<lparr>sendSeq := Suc (sendSeq s)\<rparr>)\<rparr>"
    by (auto simp add: encryptWithSession_live)
  from w' have live': "sessions w' sid = Some (s\<lparr>sendSeq := Suc (sendSeq s)\<rparr>)"
    by simp
  show ?thesis
    using assms(4,5,6,7) by (simp add: decryptWithSession_live [OF live'] r)
qed

text \<open>
  The plaintext \<open>hello\<close> on the live session, with base64 as Node computes it and the
  stand-in secretbox.
\<close>

lemma hello_nonce:
  "b64decode (b64encode (replicate 24 0)) = replicate 24 0"
  by (simp add: b64decode_def b64chars_def replicate_numeral_unfold)

lemma hello_box:
  "toy_seal [104, 101, 108, 108, 111] (replicate 24 0) (replicate 32 9) =
     replicate 16 52 @ [136, 133, 140, 140, 143]"
  by (simp add: toy_seal_def checksum_def replicate_numeral_unfold)

lemma hello_open:
  "toy_open (replicate 16 52 @ [136, 133, 140, 140, 143]) (replicate 24 0) (replicate 32 9) =
     Some [104, 101, 108, 108, 111]"
  by (simp add: toy_open_def checksum_def replicate_numeral_unfold)

lemma hello_box_b64:
  "b64decode (b64encode (replicate 16 52 @ [136, 133, 140, 140, 143])) =
     replicate 16 52 @ [136, 133, 140, 140, 143]"
  by (simp add: b64decode_def b64chars_def replicate_numeral_unfold)

theorem encrypt_then_decrypt_witness:
  "sessions live ''s1'' = Some session0 \<and>
   fst (encryptWithSession jest_lib ''s1'' [104, 101, 108, 108, 111] live) =
     Inr (b64encode (replicate 24 0), b64encode (replicate 16 52 @ [136, 133, 140, 140, 143]), 1) \<and>
   decryptWithSession jest_lib ''s1'' (b64decode (b64encode (replicate 24 0)))
     (b64decode (b64encode (replicate 16 52 @ [136, 133, 140, 140, 143])))
     (snd (encryptWithSession jest_lib ''s1'' [104, 101, 108, 108, 111] live)) =
     (Inr [104, 101, 108, 108, 111],
      snd (encryptWithSession jest_lib ''s1'' [104, 101, 108, 108, 111] live))"
proof -
  have n: "replicate crypto_secretbox_NONCEBYTES (word_of_nat (randombytes_calls live)) =
      (replicate 24 0 :: bytes)"
    by (simp add: live_def fresh_def crypto_secretbox_NONCEBYTES_def)
  have k: "key session0 = replicate 32 9"
    by (simp add: session0_def)
  have e1: "fst (encryptWithSession jest_lib ''s1'' [104, 101, 108, 108, 111] live) =
      Inr (b64encode (replicate 24 0),
           b64encode (replicate 16 52 @ [136, 133, 140, 140, 143]), 1)"
    by (simp add: encryptWithSession_live [OF sessions_live] n k hello_box session0_def)
  then have e: "encryptWithSession jest_lib ''s1'' [104, 101, 108, 108, 111] live =
      (Inr (b64encode (replicate 24 0),
            b64encode (replicate 16 52 @ [136, 133, 140, 140, 143]), 1),
       snd (encryptWithSession jest_lib ''s1'' [104, 101, 108, 108, 111] live))"
    by (simp add: prod_eq_iff)
  from encrypt_then_decrypt [of live "''s1''" session0 "replicate 24 0" jest_lib
      "replicate 16 52 @ [136, 133, 140, 140, 143]" "[104, 101, 108, 108, 111]", OF _ _ _ _ _ _ _ e]
  have "decryptWithSession jest_lib ''s1'' (b64decode (b64encode (replicate 24 0)))
     (b64decode (b64encode (replicate 16 52 @ [136, 133, 140, 140, 143])))
     (snd (encryptWithSession jest_lib ''s1'' [104, 101, 108, 108, 111] live)) =
     (Inr [104, 101, 108, 108, 111],
      snd (encryptWithSession jest_lib ''s1'' [104, 101, 108, 108, 111] live))"
    by (simp add: n k hello_box hello_open hello_nonce hello_box_b64
        crypto_secretbox_MACBYTES_def)
  with e1 show ?thesis
    by simp
qed

subsection \<open>Confirming the pairing (confirmClientPairing)\<close>

lemma confirmClientPairing_Client:
  "confirmClientPairing Client k w =
     (case storedData w of
        None \<Rightarrow> (Inl NO_PENDING_PAIRING, w)
      | Some d \<Rightarrow>
          if \<not> truthy (publicKey d) then (Inl NO_PENDING_PAIRING, w)
          else if publicKey d \<noteq> Some k then (Inl CLIENT_KEY_MISMATCH, w)
          else if vault_add_ok w
          then (Inr (),
                w\<lparr>localStorage := (localStorage w)(NM_CLIENT_PUBLIC_KEY \<mapsto> k),
                  vault_store := (vault_store w)
                    (ENC_KEY_CLIENT_DATA \<mapsto> Json (d\<lparr>pairingState := Some CONFIRMED\<rparr>))\<rparr>)
          else (Inl VaultRejected,
                w\<lparr>localStorage := (localStorage w)(NM_CLIENT_PUBLIC_KEY \<mapsto> k)\<rparr>))"
  by (simp add: confirmClientPairing_def encryptionAdd_Client split: option.splits)

lemma confirmClientPairing_Undefined [simp]:
  "confirmClientPairing Undefined k w = (Inl TypeError, w)"
  by (simp add: confirmClientPairing_def)



text \<open>The worlds of the first-run pairing, written out.\<close>

lemma pinned_world_eq:
  "pinned_world = fresh\<lparr>vault_store := [ENC_KEY_CLIENT_DATA \<mapsto>
     Json \<lparr>publicKey = Some extensionKey, pairingState = Some PENDING\<rparr>]\<rparr>"
  by (simp add: pinned_world_def after_def setClientIdentityPublicKey_Client truthy_def)

lemma confirmed_world_eq:
  "confirmed_world = fresh\<lparr>localStorage := [NM_CLIENT_PUBLIC_KEY \<mapsto> extensionKey],
     vault_store := [ENC_KEY_CLIENT_DATA \<mapsto>
       Json \<lparr>publicKey = Some extensionKey, pairingState = Some CONFIRMED\<rparr>]\<rparr>"
  by (simp add: confirmed_world_def after_def pinned_world_eq confirmClientPairing_Client
      storedData_def readKey_eq falsy_def truthy_def)

lemma storedData_confirmed_world:
  "storedData confirmed_world =
     Some \<lparr>publicKey = Some extensionKey, pairingState = Some CONFIRMED\<rparr>"
  by (simp add: confirmed_world_eq storedData_def readKey_eq falsy_def)




subsection \<open>The unprotected cache\<close>

text \<open>setClientIdentityPublicKey writes the record and leaves \<^verbatim>\<open>localStorage\<close> alone.\<close>

lemma setClientIdentityPublicKey_keeps_cache:
  "localStorage (after (setClientIdentityPublicKey client pk st) w) = localStorage w"
  by (cases client) (simp_all add: after_def setClientIdentityPublicKey_def
      encryptionAdd_Client)

lemma repinned_world_eq:
  "repinned_world = fresh\<lparr>localStorage := [NM_CLIENT_PUBLIC_KEY \<mapsto> extensionKey],
     vault_store := [ENC_KEY_CLIENT_DATA \<mapsto>
       Json \<lparr>publicKey = Some extensionKey, pairingState = Some PENDING\<rparr>]\<rparr>"
  by (simp add: repinned_world_def after_def confirmed_world_eq setClientIdentityPublicKey_Client
      truthy_def)

text \<open>
  C7.  On a first run, pin the key of an extension, confirm the pairing, and pin the same
  key again (each call succeeds): the stored record is PENDING and the cache holds the
  key.
\<close>

theorem pending_record_with_cached_key:
  "fst (setClientIdentityPublicKey Client (Some extensionKey) PENDING fresh) = Inr () \<and>
   fst (confirmClientPairing Client extensionKey pinned_world) = Inr () \<and>
   fst (setClientIdentityPublicKey Client (Some extensionKey) PENDING confirmed_world) = Inr () \<and>
   fst (getClientPairingState Client pinned_world) = Inr (Some PENDING) \<and>
   fst (getCachedClientIdentityPublicKey pinned_world) = Inr None \<and>
   fst (getClientPairingState Client confirmed_world) = Inr (Some CONFIRMED) \<and>
   fst (getCachedClientIdentityPublicKey confirmed_world) = Inr (Some extensionKey) \<and>
   fst (getClientPairingState Client repinned_world) = Inr (Some PENDING) \<and>
   fst (getCachedClientIdentityPublicKey repinned_world) = Inr (Some extensionKey)"
proof -
  have s1: "storedData pinned_world =
      Some \<lparr>publicKey = Some extensionKey, pairingState = Some PENDING\<rparr>"
    by (simp add: pinned_world_eq storedData_def readKey_eq falsy_def)
  have s3: "storedData repinned_world =
      Some \<lparr>publicKey = Some extensionKey, pairingState = Some PENDING\<rparr>"
    by (simp add: repinned_world_eq storedData_def readKey_eq falsy_def)
  have c1: "fst (setClientIdentityPublicKey Client (Some extensionKey) PENDING fresh) = Inr ()"
    by (simp add: setClientIdentityPublicKey_Client truthy_def)
  have c2: "fst (confirmClientPairing Client extensionKey pinned_world) = Inr ()"
    by (simp add: pinned_world_eq confirmClientPairing_Client storedData_def readKey_eq
        falsy_def truthy_def)
  have c3: "fst (setClientIdentityPublicKey Client (Some extensionKey) PENDING confirmed_world)
      = Inr ()"
    by (simp add: setClientIdentityPublicKey_Client truthy_def confirmed_world_eq)
  have g1: "fst (getClientPairingState Client pinned_world) = Inr (Some PENDING)"
    by (simp add: getClientPairingState_def s1 orNull_def truthy_def)
  have g2: "fst (getClientPairingState Client confirmed_world) = Inr (Some CONFIRMED)"
    by (simp add: getClientPairingState_def storedData_confirmed_world orNull_def truthy_def)
  have g3: "fst (getClientPairingState Client repinned_world) = Inr (Some PENDING)"
    by (simp add: getClientPairingState_def s3 orNull_def truthy_def)
  have l1: "fst (getCachedClientIdentityPublicKey pinned_world) = Inr None"
    by (simp add: getCachedClientIdentityPublicKey_def pinned_world_eq orNull_def truthy_def)
  have l2: "fst (getCachedClientIdentityPublicKey confirmed_world) = Inr (Some extensionKey)"
    by (simp add: getCachedClientIdentityPublicKey_def confirmed_world_eq orNull_def truthy_def)
  have l3: "fst (getCachedClientIdentityPublicKey repinned_world) = Inr (Some extensionKey)"
    by (simp add: getCachedClientIdentityPublicKey_def repinned_world_eq orNull_def truthy_def)
  from c1 c2 c3 g1 g2 g3 l1 l2 l3 show ?thesis
    by blast
qed

subsection \<open>The identity store (getOrCreateIdentity)\<close>

lemma ensureEncryptionInitialized_Client:
  "ensureEncryptionInitialized Client w = (Inr (), w\<lparr>vault_initialized := True\<rparr>)"
  by (cases "vault_initialized w")
    (simp_all add: ensureEncryptionInitialized_def try_catch_def await_def
      encryptionGetStatus_def encryptionInit_def)

lemma getOrCreatePairingSecret_Client:
  "getOrCreatePairingSecret L Client w =
     (case readKey w ENC_KEY_PAIRING_SECRET of
        Some v \<Rightarrow>
          if length (fromBase64 L (text_of L v)) \<noteq> 32 then (Inl INVALID_PAIRING_SECRET, w)
          else (Inr (text_of L v), w)
      | None \<Rightarrow>
          if vault_add_ok w
          then (Inr (toBase64 L (randombytes_buf L (randombytes_calls w) 32)),
                w\<lparr>randombytes_calls := Suc (randombytes_calls w),
                  vault_store := (vault_store w)(ENC_KEY_PAIRING_SECRET \<mapsto>
                    Str (toBase64 L (randombytes_buf L (randombytes_calls w) 32)))\<rparr>)
          else (Inl PairingSecretPersistenceFailed,
                w\<lparr>randombytes_calls := Suc (randombytes_calls w)\<rparr>))"
  by (cases "readKey w ENC_KEY_PAIRING_SECRET") (simp_all add: getOrCreatePairingSecret_def)

lemma prepared_eq:
  "prepared L w =
     (case readKey w ENC_KEY_PAIRING_SECRET of
        Some v \<Rightarrow> w\<lparr>vault_initialized := True\<rparr>
      | None \<Rightarrow>
          if vault_add_ok w
          then w\<lparr>vault_initialized := True,
                 randombytes_calls := Suc (randombytes_calls w),
                 vault_store := (vault_store w)(ENC_KEY_PAIRING_SECRET \<mapsto>
                   Str (toBase64 L (randombytes_buf L (randombytes_calls w) 32)))\<rparr>
          else w\<lparr>vault_initialized := True,
                 randombytes_calls := Suc (randombytes_calls w)\<rparr>)"
proof -
  have r: "readKey (w\<lparr>vault_initialized := True\<rparr>) k = readKey w k" for k
    by (simp add: readKey_eq)
  show ?thesis
    by (simp add: prepared_def await_def ensureEncryptionInitialized_Client try_catch_def
        getOrCreatePairingSecret_Client r split: option.splits)
qed

lemma prepared_frame [simp]:
  "vault_get_ok (prepared L w) = vault_get_ok w"
  "vault_add_ok (prepared L w) = vault_add_ok w"
  "vault_wraps (prepared L w) = vault_wraps w"
  "MEMORY_IDENTITY (prepared L w) = MEMORY_IDENTITY w"
  "localStorage (prepared L w) = localStorage w"
  "sessions (prepared L w) = sessions w"
  "nativeMessagingEnabled (prepared L w) = nativeMessagingEnabled w"
  "sign_keypair_calls (prepared L w) = sign_keypair_calls w"
  "box_keypair_calls (prepared L w) = box_keypair_calls w"
  "now (prepared L w) = now w"
  by (simp_all add: prepared_eq split: option.splits)

lemma prepared_store:
  "k \<noteq> ENC_KEY_PAIRING_SECRET \<Longrightarrow> vault_store (prepared L w) k = vault_store w k"
  by (simp add: prepared_eq split: option.splits)

lemma readKey_prepared [simp]:
  "k \<noteq> ENC_KEY_PAIRING_SECRET \<Longrightarrow> readKey (prepared L w) k = readKey w k"
  by (simp add: readKey_eq prepared_store)

lemma storedData_prepared [simp]: "storedData (prepared L w) = storedData w"
  by (simp add: storedData_def)

lemma generateAndPersistIdentity_Client:
  "generateAndPersistIdentity L Client w =
     (Inr \<lparr>ed25519PublicKey = toBase64 L (fst (crypto_sign_keypair L (sign_keypair_calls w))),
           x25519PublicKey = toBase64 L (fst (crypto_box_keypair L (box_keypair_calls w))),
           creationDate = now w\<rparr>,
      if vault_add_ok w
      then w\<lparr>sign_keypair_calls := Suc (sign_keypair_calls w),
             box_keypair_calls := Suc (box_keypair_calls w),
             vault_store := (vault_store w)
               (ENC_KEY_ED25519 \<mapsto> Str (toBase64 L
                  (fst (crypto_sign_keypair L (sign_keypair_calls w)) @
                   snd (crypto_sign_keypair L (sign_keypair_calls w)))),
                ENC_KEY_X25519 \<mapsto> Str (toBase64 L
                  (fst (crypto_box_keypair L (box_keypair_calls w)) @
                   snd (crypto_box_keypair L (box_keypair_calls w)))),
                ENC_KEY_CREATION_DATE \<mapsto> Str (now w))\<rparr>
      else w\<lparr>sign_keypair_calls := Suc (sign_keypair_calls w),
             box_keypair_calls := Suc (box_keypair_calls w),
             MEMORY_IDENTITY := Some
               \<lparr>ed25519PublicKeyBytes = fst (crypto_sign_keypair L (sign_keypair_calls w)),
                ed25519PrivateKeyBytes = snd (crypto_sign_keypair L (sign_keypair_calls w)),
                x25519PublicKeyBytes = fst (crypto_box_keypair L (box_keypair_calls w)),
                x25519PrivateKeyBytes = snd (crypto_box_keypair L (box_keypair_calls w)),
                mem_creationDate = now w\<rparr>\<rparr>)"
  by (simp add: generateAndPersistIdentity_def io_defs prim_defs split: prod.splits)

text \<open>
  getOrCreateIdentity, case by case: both blobs readable; else an identity in memory; else
  a fresh one.
\<close>

lemma getOrCreateIdentity_Client:
  "getOrCreateIdentity L Client w =
     (case (readKey w ENC_KEY_ED25519, readKey w ENC_KEY_X25519) of
        (Some e, Some x) \<Rightarrow>
          (Inr \<lparr>ed25519PublicKey = toBase64 L (subarray 0 32 (fromBase64 L (text_of L e))),
                x25519PublicKey = toBase64 L (subarray 0 32 (fromBase64 L (text_of L x))),
                creationDate = (case readKey w ENC_KEY_CREATION_DATE of
                                  Some d \<Rightarrow> text_of L d
                                | None \<Rightarrow> now w)\<rparr>,
           prepared L w)
      | _ \<Rightarrow>
          (case MEMORY_IDENTITY w of
             Some m \<Rightarrow>
               (Inr \<lparr>ed25519PublicKey = toBase64 L (ed25519PublicKeyBytes m),
                     x25519PublicKey = toBase64 L (x25519PublicKeyBytes m),
                     creationDate = (if mem_creationDate m \<noteq> [] then mem_creationDate m
                                     else now w)\<rparr>,
                prepared L w)
           | None \<Rightarrow> generateAndPersistIdentity L Client (prepared L w)))"
proof -
  obtain r w1 where p: "await (ensureEncryptionInitialized Client) (\<lambda>_.
      try_catch (await (getOrCreatePairingSecret L Client) (\<lambda>_. ret ())) (\<lambda>_. ret ())) w = (r, w1)"
    by (cases "await (ensureEncryptionInitialized Client) (\<lambda>_.
      try_catch (await (getOrCreatePairingSecret L Client) (\<lambda>_. ret ())) (\<lambda>_. ret ())) w")
  then have w1: "w1 = prepared L w"
    by (simp add: prepared_def)
  from p have r: "r = Inr ()"
    by (auto simp add: await_def ensureEncryptionInitialized_Client try_catch_def
        split: prod.splits sum.splits)
  have "getOrCreateIdentity L Client w =
      await (await (ensureEncryptionInitialized Client) (\<lambda>_.
        try_catch (await (getOrCreatePairingSecret L Client) (\<lambda>_. ret ())) (\<lambda>_. ret ())))
        (\<lambda>_.
     await (dot_catch (encryptionGet Client ENC_KEY_ED25519) (\<lambda>_. ret RNull)) (\<lambda>r1.
     await (dot_catch (encryptionGet Client ENC_KEY_X25519) (\<lambda>_. ret RNull)) (\<lambda>r2.
     await (dot_catch (encryptionGet Client ENC_KEY_CREATION_DATE) (\<lambda>_. ret RNull)) (\<lambda>r3.
     await getMemIdentity (\<lambda>mem.
       case (normalizeEncryptionGet r1, normalizeEncryptionGet r2) of
         (Some ed25519BlobB64, Some x25519BlobB64) \<Rightarrow>
           await (case normalizeEncryptionGet r3 of
                    Some d \<Rightarrow> ret (text_of L d)
                  | None \<Rightarrow> new_Date_toISOString) (\<lambda>date.
           ret \<lparr>ed25519PublicKey =
                  toBase64 L (subarray 0 32 (fromBase64 L (text_of L ed25519BlobB64))),
                x25519PublicKey =
                  toBase64 L (subarray 0 32 (fromBase64 L (text_of L x25519BlobB64))),
                creationDate = date\<rparr>)
       | _ \<Rightarrow>
           (case mem of
              Some m \<Rightarrow>
                await (if mem_creationDate m \<noteq> [] then ret (mem_creationDate m)
                       else new_Date_toISOString) (\<lambda>date.
                ret \<lparr>ed25519PublicKey = toBase64 L (ed25519PublicKeyBytes m),
                     x25519PublicKey = toBase64 L (x25519PublicKeyBytes m),
                     creationDate = date\<rparr>)
            | None \<Rightarrow> generateAndPersistIdentity L Client)))))) w"
    by (simp only: getOrCreateIdentity_def await_assoc)
  also have "\<dots> =
     (await (dot_catch (encryptionGet Client ENC_KEY_ED25519) (\<lambda>_. ret RNull)) (\<lambda>r1.
     await (dot_catch (encryptionGet Client ENC_KEY_X25519) (\<lambda>_. ret RNull)) (\<lambda>r2.
     await (dot_catch (encryptionGet Client ENC_KEY_CREATION_DATE) (\<lambda>_. ret RNull)) (\<lambda>r3.
     await getMemIdentity (\<lambda>mem.
       case (normalizeEncryptionGet r1, normalizeEncryptionGet r2) of
         (Some ed25519BlobB64, Some x25519BlobB64) \<Rightarrow>
           await (case normalizeEncryptionGet r3 of
                    Some d \<Rightarrow> ret (text_of L d)
                  | None \<Rightarrow> new_Date_toISOString) (\<lambda>date.
           ret \<lparr>ed25519PublicKey =
                  toBase64 L (subarray 0 32 (fromBase64 L (text_of L ed25519BlobB64))),
                x25519PublicKey =
                  toBase64 L (subarray 0 32 (fromBase64 L (text_of L x25519BlobB64))),
                creationDate = date\<rparr>)
       | _ \<Rightarrow>
           (case mem of
              Some m \<Rightarrow>
                await (if mem_creationDate m \<noteq> [] then ret (mem_creationDate m)
                       else new_Date_toISOString) (\<lambda>date.
                ret \<lparr>ed25519PublicKey = toBase64 L (ed25519PublicKeyBytes m),
                     x25519PublicKey = toBase64 L (x25519PublicKeyBytes m),
                     creationDate = date\<rparr>)
            | None \<Rightarrow> generateAndPersistIdentity L Client)))))) (prepared L w)"
    using p r w1 by (simp add: await_Inr)
  also have "\<dots> =
     (case (readKey w ENC_KEY_ED25519, readKey w ENC_KEY_X25519) of
        (Some e, Some x) \<Rightarrow>
          (Inr \<lparr>ed25519PublicKey = toBase64 L (subarray 0 32 (fromBase64 L (text_of L e))),
                x25519PublicKey = toBase64 L (subarray 0 32 (fromBase64 L (text_of L x))),
                creationDate = (case readKey w ENC_KEY_CREATION_DATE of
                                  Some d \<Rightarrow> text_of L d
                                | None \<Rightarrow> now w)\<rparr>,
           prepared L w)
      | _ \<Rightarrow>
          (case MEMORY_IDENTITY w of
             Some m \<Rightarrow>
               (Inr \<lparr>ed25519PublicKey = toBase64 L (ed25519PublicKeyBytes m),
                     x25519PublicKey = toBase64 L (x25519PublicKeyBytes m),
                     creationDate = (if mem_creationDate m \<noteq> [] then mem_creationDate m
                                     else now w)\<rparr>,
                prepared L w)
           | None \<Rightarrow> generateAndPersistIdentity L Client (prepared L w)))"
    by (simp split: option.splits)
  finally show ?thesis .
qed

subsection \<open>When an identity is generated\<close>

lemma text_of_Str [simp]: "text_of L (Str s) = s"
  by (simp add: text_of_def)

lemma getOrCreateIdentity_stored:
  assumes "readKey w ENC_KEY_ED25519 = Some e" and "readKey w ENC_KEY_X25519 = Some x"
  shows "getOrCreateIdentity L Client w =
    (Inr \<lparr>ed25519PublicKey = toBase64 L (subarray 0 32 (fromBase64 L (text_of L e))),
          x25519PublicKey = toBase64 L (subarray 0 32 (fromBase64 L (text_of L x))),
          creationDate = (case readKey w ENC_KEY_CREATION_DATE of
                            Some d \<Rightarrow> text_of L d
                          | None \<Rightarrow> now w)\<rparr>,
     prepared L w)"
  using assms by (simp add: getOrCreateIdentity_Client)

lemma getOrCreateIdentity_memory:
  assumes "readKey w ENC_KEY_ED25519 = None \<or> readKey w ENC_KEY_X25519 = None"
    and "MEMORY_IDENTITY w = Some m"
  shows "getOrCreateIdentity L Client w =
    (Inr \<lparr>ed25519PublicKey = toBase64 L (ed25519PublicKeyBytes m),
          x25519PublicKey = toBase64 L (x25519PublicKeyBytes m),
          creationDate = (if mem_creationDate m \<noteq> [] then mem_creationDate m else now w)\<rparr>,
     prepared L w)"
  using assms by (auto simp add: getOrCreateIdentity_Client split: option.splits)

lemma getOrCreateIdentity_absent:
  assumes "identity_absent w"
  shows "getOrCreateIdentity L Client w = generateAndPersistIdentity L Client (prepared L w)"
  using assms by (auto simp add: getOrCreateIdentity_Client identity_absent_def
      split: option.splits)

lemma identity_absent_prepared [simp]: "identity_absent (prepared L w) = identity_absent w"
  by (simp add: identity_absent_def)

text \<open>A call generates one key pair of each kind when no identity is found, and none otherwise.\<close>

lemma getOrCreateIdentity_calls:
  "sign_keypair_calls (after (getOrCreateIdentity L Client) w) =
     sign_keypair_calls w + (if identity_absent w then 1 else 0) \<and>
   box_keypair_calls (after (getOrCreateIdentity L Client) w) =
     box_keypair_calls w + (if identity_absent w then 1 else 0)"
proof (cases "identity_absent w")
  case True
  then show ?thesis
    by (simp add: after_def getOrCreateIdentity_absent generateAndPersistIdentity_Client)
next
  case False
  show ?thesis
  proof (cases "MEMORY_IDENTITY w")
    case None
    with False obtain e x where "readKey w ENC_KEY_ED25519 = Some e"
      "readKey w ENC_KEY_X25519 = Some x"
      by (auto simp add: identity_absent_def)
    with False show ?thesis
      by (simp add: after_def getOrCreateIdentity_stored)
  next
    case (Some m)
    show ?thesis
    proof (cases "readKey w ENC_KEY_ED25519 = None \<or> readKey w ENC_KEY_X25519 = None")
      case True
      with Some False show ?thesis
        by (simp add: after_def getOrCreateIdentity_memory)
    next
      case no: False
      then obtain e x where "readKey w ENC_KEY_ED25519 = Some e"
        "readKey w ENC_KEY_X25519 = Some x"
        by auto
      with False show ?thesis
        by (simp add: after_def getOrCreateIdentity_stored)
    qed
  qed
qed

text \<open>The public keys of a call that finds an identity are those of the call before it.\<close>

lemma getOrCreateIdentity_present_again:
  assumes "\<not> identity_absent w"
  shows "\<exists>i j. getOrCreateIdentity L Client w = (Inr i, prepared L w) \<and>
    getOrCreateIdentity L Client (prepared L w) = (Inr j, prepared L (prepared L w)) \<and>
    ed25519PublicKey j = ed25519PublicKey i \<and> x25519PublicKey j = x25519PublicKey i"
proof (cases "readKey w ENC_KEY_ED25519 = None \<or> readKey w ENC_KEY_X25519 = None")
  case True
  with assms obtain m where m: "MEMORY_IDENTITY w = Some m"
    by (auto simp add: identity_absent_def)
  from True have "readKey (prepared L w) ENC_KEY_ED25519 = None \<or>
      readKey (prepared L w) ENC_KEY_X25519 = None"
    by simp
  moreover from m have "MEMORY_IDENTITY (prepared L w) = Some m"
    by simp
  ultimately have "getOrCreateIdentity L Client (prepared L w) =
      (Inr \<lparr>ed25519PublicKey = toBase64 L (ed25519PublicKeyBytes m),
            x25519PublicKey = toBase64 L (x25519PublicKeyBytes m),
            creationDate = (if mem_creationDate m \<noteq> [] then mem_creationDate m
                            else now (prepared L w))\<rparr>,
       prepared L (prepared L w))"
    by (rule getOrCreateIdentity_memory)
  with getOrCreateIdentity_memory [OF True m, of L] show ?thesis
    by simp
next
  case False
  then obtain e x where ex: "readKey w ENC_KEY_ED25519 = Some e"
    "readKey w ENC_KEY_X25519 = Some x"
    by auto
  then have "readKey (prepared L w) ENC_KEY_ED25519 = Some e"
    "readKey (prepared L w) ENC_KEY_X25519 = Some x"
    by simp_all
  from getOrCreateIdentity_stored [OF this, of L] getOrCreateIdentity_stored [OF ex, of L]
  show ?thesis
    by simp
qed

text \<open>
  After a generation the next call finds what was generated: in the store when the
  vault took the writes and reads them back, in memory when it did not.
\<close>

lemma getOrCreateIdentity_generated_again:
  assumes absent: "identity_absent w"
    and io: "vault_add_ok w \<longrightarrow> vault_get_ok w"
    and ed: "crypto_sign_keypair L (sign_keypair_calls w) = (edPk, edSk)"
    and x: "crypto_box_keypair L (box_keypair_calls w) = (xPk, xSk)"
    and len: "length edPk = 32" "length xPk = 32"
    and rt: "fromBase64 L (toBase64 L (edPk @ edSk)) = edPk @ edSk"
      "fromBase64 L (toBase64 L (xPk @ xSk)) = xPk @ xSk"
    and ne: "toBase64 L (edPk @ edSk) \<noteq> []" "toBase64 L (xPk @ xSk) \<noteq> []"
  shows "\<exists>i j. fst (getOrCreateIdentity L Client w) = Inr i \<and>
    fst (getOrCreateIdentity L Client (after (getOrCreateIdentity L Client) w)) = Inr j \<and>
    ed25519PublicKey i = toBase64 L edPk \<and> x25519PublicKey i = toBase64 L xPk \<and>
    ed25519PublicKey j = ed25519PublicKey i \<and> x25519PublicKey j = x25519PublicKey i"
proof -
  let ?p = "prepared L w"
  let ?w1 = "after (getOrCreateIdentity L Client) w"
  have first: "getOrCreateIdentity L Client w = generateAndPersistIdentity L Client ?p"
    by (rule getOrCreateIdentity_absent [OF absent])
  have i: "fst (getOrCreateIdentity L Client w) =
      Inr \<lparr>ed25519PublicKey = toBase64 L edPk, x25519PublicKey = toBase64 L xPk,
           creationDate = now w\<rparr>"
    by (simp add: first generateAndPersistIdentity_Client ed x)
  show ?thesis
  proof (cases "vault_add_ok w")
    case True
    with io have g: "vault_get_ok w" by simp
    from True have w1: "?w1 = ?p\<lparr>sign_keypair_calls := Suc (sign_keypair_calls ?p),
        box_keypair_calls := Suc (box_keypair_calls ?p),
        vault_store := (vault_store ?p)
          (ENC_KEY_ED25519 \<mapsto> Str (toBase64 L (edPk @ edSk)),
           ENC_KEY_X25519 \<mapsto> Str (toBase64 L (xPk @ xSk)),
           ENC_KEY_CREATION_DATE \<mapsto> Str (now ?p))\<rparr>"
      by (simp add: after_def first generateAndPersistIdentity_Client ed x)
    have r1: "readKey ?w1 ENC_KEY_ED25519 = Some (Str (toBase64 L (edPk @ edSk)))"
      using g ne by (simp add: w1 readKey_eq falsy_def)
    have r2: "readKey ?w1 ENC_KEY_X25519 = Some (Str (toBase64 L (xPk @ xSk)))"
      using g ne by (simp add: w1 readKey_eq falsy_def)
    from getOrCreateIdentity_stored [OF r1 r2, of L] len rt
    have "fst (getOrCreateIdentity L Client ?w1) =
        Inr \<lparr>ed25519PublicKey = toBase64 L edPk, x25519PublicKey = toBase64 L xPk,
             creationDate = (case readKey ?w1 ENC_KEY_CREATION_DATE of
                               Some d \<Rightarrow> text_of L d
                             | None \<Rightarrow> now ?w1)\<rparr>"
      by (simp add: subarray_def)
    with i show ?thesis by simp
  next
    case False
    let ?m = "\<lparr>ed25519PublicKeyBytes = edPk, ed25519PrivateKeyBytes = edSk,
        x25519PublicKeyBytes = xPk, x25519PrivateKeyBytes = xSk, mem_creationDate = now ?p\<rparr>"
    from False have w1: "?w1 = ?p\<lparr>sign_keypair_calls := Suc (sign_keypair_calls ?p),
        box_keypair_calls := Suc (box_keypair_calls ?p), MEMORY_IDENTITY := Some ?m\<rparr>"
      by (simp add: after_def first generateAndPersistIdentity_Client ed x)
    have rk: "readKey ?w1 k = readKey ?p k" for k
      by (simp add: w1 readKey_eq)
    from absent have "readKey ?w1 ENC_KEY_ED25519 = None \<or> readKey ?w1 ENC_KEY_X25519 = None"
      by (simp add: rk identity_absent_def)
    moreover have "MEMORY_IDENTITY ?w1 = Some ?m"
      by (simp add: w1)
    ultimately have "getOrCreateIdentity L Client ?w1 =
        (Inr \<lparr>ed25519PublicKey = toBase64 L (ed25519PublicKeyBytes ?m),
              x25519PublicKey = toBase64 L (x25519PublicKeyBytes ?m),
              creationDate = (if mem_creationDate ?m \<noteq> [] then mem_creationDate ?m
                              else now ?w1)\<rparr>,
         prepared L ?w1)"
      by (rule getOrCreateIdentity_memory)
    with i show ?thesis by simp
  qed
qed

lemma blobs_only_sel [simp]:
  "vault_get_ok blobs_only" "vault_add_ok blobs_only" "\<not> vault_wraps blobs_only"
  "MEMORY_IDENTITY blobs_only = None" "sign_keypair_calls blobs_only = 0"
  "box_keypair_calls blobs_only = 0"
  "vault_store blobs_only ENC_KEY_CREATION_DATE = None"
  "vault_store blobs_only ENC_KEY_PAIRING_SECRET = None"
  by (simp_all add: blobs_only_def)

lemma b64encode_nonempty [simp]: "xs \<noteq> [] \<Longrightarrow> b64encode xs \<noteq> []"
  by (cases xs rule: b64encode.cases) (simp_all add: Let_def)

lemma readKey_blobs_only:
  "readKey blobs_only ENC_KEY_ED25519 = Some (Str (b64encode (replicate 32 5 @ replicate 64 6)))"
  "readKey blobs_only ENC_KEY_X25519 = Some (Str (b64encode (replicate 32 7 @ replicate 32 8)))"
  by (simp_all add: readKey_eq falsy_def blobs_only_def)

text \<open>
  C8, as stated, fails: with both key blobs stored and the creation date and the pairing
  secret missing, getOrCreateIdentity generates nothing.
\<close>

theorem getOrCreateIdentity_keeps_keys_without_date:
  "vault_store blobs_only ENC_KEY_CREATION_DATE = None \<and>
   vault_store blobs_only ENC_KEY_PAIRING_SECRET = None \<and>
   sign_keypair_calls (after (getOrCreateIdentity jest_lib Client) blobs_only) =
     sign_keypair_calls blobs_only \<and>
   box_keypair_calls (after (getOrCreateIdentity jest_lib Client) blobs_only) =
     box_keypair_calls blobs_only \<and>
   vault_store (after (getOrCreateIdentity jest_lib Client) blobs_only) ENC_KEY_ED25519 =
     vault_store blobs_only ENC_KEY_ED25519 \<and>
   vault_store (after (getOrCreateIdentity jest_lib Client) blobs_only) ENC_KEY_CREATION_DATE =
     None"
  by (simp add: after_def getOrCreateIdentity_stored [OF readKey_blobs_only] prepared_store)

text \<open>
  C8, amended.  getOrCreateIdentity generates fresh Ed25519 and X25519 key pairs exactly
  when the Ed25519 blob or the X25519 blob cannot be read from the store (rejected read,
  absent key, empty string) and no identity is held in memory; the creation date and the
  pairing secret play no part.  Two consecutive calls return the same public keys and the
  second call generates nothing, for a vault that reads back what it took and a base64
  that decodes the two blobs it encoded.
\<close>

theorem getOrCreateIdentity_generates_when_absent:
  assumes "vault_add_ok w \<longrightarrow> vault_get_ok w"
    and "crypto_sign_keypair L (sign_keypair_calls w) = (edPk, edSk)"
    and "crypto_box_keypair L (box_keypair_calls w) = (xPk, xSk)"
    and "length edPk = 32" and "length xPk = 32"
    and "fromBase64 L (toBase64 L (edPk @ edSk)) = edPk @ edSk"
    and "fromBase64 L (toBase64 L (xPk @ xSk)) = xPk @ xSk"
    and "toBase64 L (edPk @ edSk) \<noteq> []" and "toBase64 L (xPk @ xSk) \<noteq> []"
  shows "sign_keypair_calls (after (getOrCreateIdentity L Client) w) =
      sign_keypair_calls w + (if identity_absent w then 1 else 0) \<and>
    box_keypair_calls (after (getOrCreateIdentity L Client) w) =
      box_keypair_calls w + (if identity_absent w then 1 else 0) \<and>
    (\<exists>i j. fst (getOrCreateIdentity L Client w) = Inr i \<and>
       fst (getOrCreateIdentity L Client (after (getOrCreateIdentity L Client) w)) = Inr j \<and>
       ed25519PublicKey j = ed25519PublicKey i \<and> x25519PublicKey j = x25519PublicKey i) \<and>
    sign_keypair_calls
      (after (getOrCreateIdentity L Client) (after (getOrCreateIdentity L Client) w)) =
      sign_keypair_calls (after (getOrCreateIdentity L Client) w) \<and>
    box_keypair_calls
      (after (getOrCreateIdentity L Client) (after (getOrCreateIdentity L Client) w)) =
      box_keypair_calls (after (getOrCreateIdentity L Client) w)"
proof -
  let ?w1 = "after (getOrCreateIdentity L Client) w"
  have again: "\<exists>i j. fst (getOrCreateIdentity L Client w) = Inr i \<and>
       fst (getOrCreateIdentity L Client ?w1) = Inr j \<and>
       ed25519PublicKey j = ed25519PublicKey i \<and> x25519PublicKey j = x25519PublicKey i"
  proof (cases "identity_absent w")
    case True
    from getOrCreateIdentity_generated_again [OF True assms] show ?thesis
      by blast
  next
    case False
    from getOrCreateIdentity_present_again [OF False, of L] show ?thesis
      by (auto simp add: after_def)
  qed
  have present: "\<not> identity_absent ?w1"
  proof (cases "identity_absent w")
    case True
    have first: "getOrCreateIdentity L Client w =
        generateAndPersistIdentity L Client (prepared L w)"
      by (rule getOrCreateIdentity_absent [OF True])
    show ?thesis
    proof (cases "vault_add_ok w")
      case add: True
      with assms(1) have g: "vault_get_ok w" by simp
      from add g assms(8,9) show ?thesis
        by (simp add: after_def first generateAndPersistIdentity_Client assms(2,3)
            identity_absent_def readKey_eq falsy_def)
    next
      case False
      then show ?thesis
        by (simp add: after_def first generateAndPersistIdentity_Client identity_absent_def)
    qed
  next
    case False
    from getOrCreateIdentity_present_again [OF False, of L]
    have "?w1 = prepared L w"
      by (auto simp add: after_def)
    with False show ?thesis by simp
  qed
  from getOrCreateIdentity_calls [of L w] getOrCreateIdentity_calls [of L ?w1] present again
  show ?thesis
    by simp
qed

text \<open>
  A first run with the key pairs of the test-suite: the first call generates both pairs
  and stores them, the second call reads them back and generates nothing.
\<close>

lemma b64_roundtrip_ed_blob:
  "b64decode (b64encode (replicate 32 1 @ replicate 64 2)) = replicate 32 1 @ replicate 64 2"
  by (simp add: b64decode_def b64chars_def replicate_numeral_unfold)

lemma b64_roundtrip_x_blob:
  "b64decode (b64encode (replicate 32 3 @ replicate 32 4)) = replicate 32 3 @ replicate 32 4"
  by (simp add: b64decode_def b64chars_def replicate_numeral_unfold)

lemma identity_absent_fresh: "identity_absent fresh"
  by (simp add: identity_absent_def readKey_eq)

theorem getOrCreateIdentity_generates_when_absent_witness:
  "identity_absent fresh \<and> vault_add_ok fresh \<and> vault_get_ok fresh \<and>
   sign_keypair_calls (after (getOrCreateIdentity jest_lib Client) fresh) = 1 \<and>
   box_keypair_calls (after (getOrCreateIdentity jest_lib Client) fresh) = 1 \<and>
   sign_keypair_calls (after (getOrCreateIdentity jest_lib Client)
     (after (getOrCreateIdentity jest_lib Client) fresh)) = 1 \<and>
   box_keypair_calls (after (getOrCreateIdentity jest_lib Client)
     (after (getOrCreateIdentity jest_lib Client) fresh)) = 1 \<and>
   (\<exists>i j. fst (getOrCreateIdentity jest_lib Client fresh) = Inr i \<and>
      fst (getOrCreateIdentity jest_lib Client
             (after (getOrCreateIdentity jest_lib Client) fresh)) = Inr j \<and>
      ed25519PublicKey j = ed25519PublicKey i \<and> x25519PublicKey j = x25519PublicKey i)"
proof -
  have ne: "b64encode (replicate 32 1 @ replicate 64 2) \<noteq> []"
    "b64encode (replicate 32 3 @ replicate 32 4) \<noteq> []"
    by (rule b64encode_nonempty, simp)+
  from getOrCreateIdentity_generates_when_absent [of fresh jest_lib "replicate 32 1"
      "replicate 64 2" "replicate 32 3" "replicate 32 4"]
    b64_roundtrip_ed_blob b64_roundtrip_x_blob ne identity_absent_fresh
  show ?thesis
    by simp
qed

subsection \<open>The handlers\<close>

lemma pinnedKey_eq: "getClientIdentityPublicKey Client w = (Inr (pinnedKey w), w)"
  by (simp add: getClientIdentityPublicKey_Client pinnedKey_def)

lemma await_getClientIdentityPublicKey [simp]:
  "await (getClientIdentityPublicKey Client) f w = f (pinnedKey w) w"
  by (simp add: await_def pinnedKey_eq)

lemma await_getClientIdentityPublicKey_Undefined [simp]:
  "await (getClientIdentityPublicKey Undefined) f w = (Inl TypeError, w)"
  by (simp add: await_def)

text \<open>
  nmFinishHandshake on a session that is found and not yet verified, with the pinned
  key read through the client.
\<close>

lemma nmFinishHandshake_with_Client:
  assumes "truthy (sessionId p)" and "truthy (clientSigB64 p)"
    and "sessions w (the (sessionId p)) = Some s" and "\<not> clientVerified s"
  shows "nmFinishHandshake_with Client L p w =
    (if \<not> truthy (pinnedKey w) then (Inl CLIENT_NOT_PAIRED, w)
     else if length (fromBase64 L (the (pinnedKey w))) \<noteq> 32
     then (Inl INVALID_CLIENT_PUBLIC_KEY, w)
     else if length (fromBase64 L (the (clientSigB64 p))) \<noteq> 64
     then (Inl INVALID_CLIENT_SIGNATURE, w)
     else if transcript s = [] then (Inl INVALID_TRANSCRIPT, w)
     else if \<not> crypto_sign_verify_detached L (fromBase64 L (the (clientSigB64 p)))
                (utf8 CLIENT_FINISH @ utf8 (the (sessionId p)) @ transcript s)
                (fromBase64 L (the (pinnedKey w)))
     then (Inl CLIENT_SIGNATURE_INVALID,
           w\<lparr>sessions := (sessions w)(the (sessionId p) := None)\<rparr>)
     else (Inr (), w\<lparr>sessions := (sessions w)
             (the (sessionId p) \<mapsto> s\<lparr>clientVerified := True\<rparr>)\<rparr>))"
  using assms
  by (simp add: nmFinishHandshake_with_def Let_def update_session_Some concatBytes_def
      crypto_sign_PUBLICKEYBYTES_def crypto_sign_BYTES_def)

lemma nmFinishHandshake_with_Undefined:
  assumes "truthy (sessionId p)" and "truthy (clientSigB64 p)"
    and "sessions w (the (sessionId p)) = Some s" and "\<not> clientVerified s"
  shows "nmFinishHandshake_with Undefined L p w = (Inl TypeError, w)"
  using assms by (simp add: nmFinishHandshake_with_def)

text \<open>
  Among the failures of nmFinishHandshake only the failed signature check changes the
  state, and it removes the session.
\<close>

lemma nmFinishHandshake_with_failure:
  assumes "nmFinishHandshake_with arg L p w = (Inl e, w')"
  shows "w' = (if e = CLIENT_SIGNATURE_INVALID
               then w\<lparr>sessions := (sessions w)(the (sessionId p) := None)\<rparr> else w)"
proof (cases "truthy (sessionId p) \<and> truthy (clientSigB64 p)")
  case False
  with assms show ?thesis
    by (auto simp add: nmFinishHandshake_with_def split: if_splits)
next
  case True
  show ?thesis
  proof (cases "sessions w (the (sessionId p))")
    case None
    with True assms show ?thesis
      by (auto simp add: nmFinishHandshake_with_def)
  next
    case (Some s)
    show ?thesis
    proof (cases "clientVerified s")
      case True
      with \<open>truthy (sessionId p) \<and> truthy (clientSigB64 p)\<close> Some assms show ?thesis
        by (auto simp add: nmFinishHandshake_with_def)
    next
      case False
      show ?thesis
      proof (cases arg)
        case Undefined
        with nmFinishHandshake_with_Undefined [of p w s L] True Some False assms
        show ?thesis by auto
      next
        case Client
        with nmFinishHandshake_with_Client [of p w s L] True Some False assms
        show ?thesis by (auto split: if_splits)
      qed
    qed
  qed
qed

text \<open>The requests and worlds of the examples.\<close>

lemma finish_request_sel [simp]:
  "sessionId (finish_request sig) = Some ''s1''"
  "clientSigB64 (finish_request sig) = Some (b64encode sig)"
  by (simp_all add: finish_request_def no_params_def)

lemma b64decode_extensionKey: "b64decode extensionKey = replicate 32 42"
  by (simp add: extensionKey_def b64decode_def b64chars_def replicate_numeral_unfold)

lemma b64_roundtrip_zero_signature:
  "b64decode (b64encode (replicate 64 0)) = replicate 64 0"
  by (simp add: b64decode_def b64chars_def replicate_numeral_unfold)

lemma b64_roundtrip_short_signature:
  "b64decode (b64encode (replicate 3 0)) = replicate 3 0"
  by (simp add: b64decode_def b64chars_def replicate_numeral_unfold)

lemma paired_live_sel [simp]:
  "sessions paired_live = [''s1'' \<mapsto> session0]"
  "vault_store paired_live = vault_store pinned_world"
  "localStorage paired_live = localStorage pinned_world"
  "MEMORY_IDENTITY paired_live = MEMORY_IDENTITY pinned_world"
  by (simp_all add: paired_live_def)

lemma pinnedKey_live: "pinnedKey live = None"
  by (simp add: pinnedKey_def storedData_def readKey_eq live_def)

lemma pinnedKey_paired_live: "pinnedKey paired_live = Some extensionKey"
  by (simp add: pinnedKey_def storedData_def readKey_eq falsy_def paired_live_def
      pinned_world_eq orNull_def truthy_def)

lemma session0_sel [simp]:
  "\<not> clientVerified session0" "transcript session0 = replicate 96 5"
  "key session0 = replicate 32 9" "lastRecvSeq session0 = 0"
  by (simp_all add: session0_def)

lemma finish_checksum:
  "checksum (replicate 32 42 @ utf8 CLIENT_FINISH @ utf8 ''s1'' @ replicate 96 5) = 85"
  by (simp add: checksum_def utf8_def CLIENT_FINISH_def replicate_numeral_unfold)

text \<open>
  On the paired first run with the live session: a signature of 64 zero bytes fails the
  check and the session is removed; a signature of three bytes is refused for its length
  and the session stays.
\<close>

lemma finish_zero_signature:
  "nmFinishHandshake_with Client jest_lib (finish_request (replicate 64 0)) paired_live =
     (Inl CLIENT_SIGNATURE_INVALID, paired_live\<lparr>sessions := Map.empty\<rparr>)"
proof -
  have "truthy (sessionId (finish_request (replicate 64 0)))"
    "truthy (clientSigB64 (finish_request (replicate 64 0)))"
    by (simp_all add: truthy_def)
  from nmFinishHandshake_with_Client [OF this, of paired_live session0 jest_lib]
  show ?thesis
    by (simp add: pinnedKey_paired_live truthy_def b64decode_extensionKey
        b64_roundtrip_zero_signature toy_verify_def finish_checksum)
qed

lemma finish_short_signature:
  "nmFinishHandshake_with Client jest_lib (finish_request (replicate 3 0)) paired_live =
     (Inl INVALID_CLIENT_SIGNATURE, paired_live)"
proof -
  have "truthy (sessionId (finish_request (replicate 3 0)))"
    "truthy (clientSigB64 (finish_request (replicate 3 0)))"
    by (simp_all add: truthy_def)
  from nmFinishHandshake_with_Client [OF this, of paired_live session0 jest_lib]
  show ?thesis
    by (simp add: pinnedKey_paired_live truthy_def b64decode_extensionKey
        b64_roundtrip_short_signature)
qed

lemma finish_not_paired:
  "nmFinishHandshake_with Client jest_lib (finish_request (replicate 64 0)) live =
     (Inl CLIENT_NOT_PAIRED, live)"
proof -
  have "truthy (sessionId (finish_request (replicate 64 0)))"
    "truthy (clientSigB64 (finish_request (replicate 64 0)))"
    by (simp_all add: truthy_def)
  from nmFinishHandshake_with_Client [OF this, of live session0 jest_lib]
  show ?thesis
    by (simp add: pinnedKey_live truthy_def)
qed

lemma b64_roundtrip_valid_signature:
  "b64decode (b64encode (replicate 64 85)) = replicate 64 85"
  by (simp add: b64decode_def b64chars_def replicate_numeral_unfold)

lemma finish_valid_signature:
  "nmFinishHandshake_with Client jest_lib (finish_request (replicate 64 85)) paired_live =
     (Inr (), paired_live\<lparr>sessions := [''s1'' \<mapsto> session0\<lparr>clientVerified := True\<rparr>]\<rparr>)"
proof -
  have "truthy (sessionId (finish_request (replicate 64 85)))"
    "truthy (clientSigB64 (finish_request (replicate 64 85)))"
    by (simp_all add: truthy_def)
  from nmFinishHandshake_with_Client [OF this, of paired_live session0 jest_lib]
  show ?thesis
    by (simp add: pinnedKey_paired_live truthy_def b64decode_extensionKey
        b64_roundtrip_valid_signature toy_verify_def finish_checksum)
qed

text \<open>
  The handler as written calls \<^verbatim>\<open>getClientIdentityPublicKey()\<close> without the client.  On
  a session that is found and not yet verified it fails with a TypeError at that call,
  whatever the request carries; it changes no state on any request.
\<close>

lemma nmFinishHandshake_as_written:
  "nmFinishHandshake L p w =
     (if \<not> truthy (sessionId p) then (Inl MISSING_SESSION_ID, w)
      else if \<not> truthy (clientSigB64 p) then (Inl MISSING_CLIENT_SIGNATURE, w)
      else (case sessions w (the (sessionId p)) of
              None \<Rightarrow> (Inl SESSION_NOT_FOUND, w)
            | Some s \<Rightarrow> if clientVerified s then (Inr (), w) else (Inl TypeError, w)))"
  by (simp add: nmFinishHandshake_def nmFinishHandshake_with_def split: option.splits)

lemma nmFinishHandshake_keeps_state: "snd (nmFinishHandshake L p w) = w"
  by (simp add: nmFinishHandshake_as_written split: option.splits)

lemma finish_source:
  assumes "sig \<noteq> []"
  shows "nmFinishHandshake jest_lib (finish_request sig) paired_live =
    (Inl TypeError, paired_live)"
proof -
  from assms have "truthy (sessionId (finish_request sig))"
    "truthy (clientSigB64 (finish_request sig))"
    by (simp_all add: truthy_def)
  from nmFinishHandshake_with_Undefined [OF this, of paired_live session0 jest_lib]
  show ?thesis
    by (simp add: nmFinishHandshake_def)
qed

subsection \<open>nmFinishHandshake and the session\<close>

text \<open>
  C3.  On the paired first run with the live session \<open>s1\<close>, a request to finish the
  handshake with a signature that does not verify (64 zero bytes) fails with a TypeError
  and the session is still found; so does the request with the signature that verifies.
  When the pinned key is read through the client, as beginHandshake reads it, the first
  request fails with CLIENT_SIGNATURE_INVALID and the session is gone, and the second
  one succeeds and marks the session verified.
\<close>

theorem nmFinishHandshake_fails_before_signature_check:
  "fst (getSession ''s1'' paired_live) = Inr (Some session0) \<and>
   \<not> clientVerified session0 \<and>
   fst (nmFinishHandshake jest_lib (finish_request (replicate 64 0)) paired_live) =
     Inl TypeError \<and>
   fst (getSession ''s1''
          (after (nmFinishHandshake jest_lib (finish_request (replicate 64 0))) paired_live)) =
     Inr (Some session0) \<and>
   fst (nmFinishHandshake jest_lib (finish_request (replicate 64 85)) paired_live) =
     Inl TypeError \<and>
   fst (nmFinishHandshake_with Client jest_lib (finish_request (replicate 64 0))
          paired_live) = Inl CLIENT_SIGNATURE_INVALID \<and>
   fst (getSession ''s1''
          (after (nmFinishHandshake_with Client jest_lib (finish_request (replicate 64 0)))
             paired_live)) = Inr None \<and>
   fst (nmFinishHandshake_with Client jest_lib (finish_request (replicate 64 85))
          paired_live) = Inr ()"
  by (simp add: after_def finish_source finish_zero_signature finish_valid_signature
      getSession_def)

subsection \<open>What a cryptographic failure does to the state\<close>

lemma toy_open_zero:
  "toy_open (replicate 16 0) (replicate 24 0) (replicate 32 9) = None"
  by (simp add: toy_open_def checksum_def replicate_numeral_unfold)

lemma decrypt_zero_frame:
  "decryptWithSession jest_lib ''s1'' (replicate 24 0) (replicate 16 0) live =
     (Inl DECRYPT_FAILED, live)"
  by (simp add: decryptWithSession_live [of live "''s1''" session0]
      crypto_secretbox_MACBYTES_def toy_open_zero)

lemma replay_zero:
  "recordIncomingSeq ''s1'' (JNumber 0) live = (Inl REPLAY_DETECTED, live)"
  by (simp add: recordIncomingSeq_live [of live "''s1''" session0])

text \<open>
  C4, as stated, fails.  On the first run with a live session, a frame of sixteen zero
  bytes fails with DECRYPT_FAILED and the sequence number 0 fails with REPLAY_DETECTED;
  after either failure the session is still found.
\<close>

theorem decrypt_and_replay_failures_keep_session:
  "fst (decryptWithSession jest_lib ''s1'' (replicate 24 0) (replicate 16 0) live) =
     Inl DECRYPT_FAILED \<and>
   fst (getSession ''s1''
          (after (decryptWithSession jest_lib ''s1'' (replicate 24 0) (replicate 16 0)) live)) =
     Inr (Some session0) \<and>
   fst (recordIncomingSeq ''s1'' (JNumber 0) live) = Inl REPLAY_DETECTED \<and>
   fst (getSession ''s1'' (after (recordIncomingSeq ''s1'' (JNumber 0)) live)) =
     Inr (Some session0)"
  by (simp add: after_def decrypt_zero_frame replay_zero getSession_def)

text \<open>
  C4, amended.  A call of decryptWithSession that fails with DECRYPT_FAILED and a call of
  recordIncomingSeq that fails with REPLAY_DETECTED change nothing: the session was found
  and is still found, unchanged.  A call of nmFinishHandshake that fails with
  CLIENT_SIGNATURE_INVALID removes the session and changes nothing else.  Hence none of
  the three failures touches the host identity or the peer record.
\<close>

theorem crypto_failure_state:
  "(decryptWithSession L sid nonce ciphertext w = (Inl DECRYPT_FAILED, w') \<longrightarrow>
      w' = w \<and> sessions w sid \<noteq> None) \<and>
   (recordIncomingSeq sid v w = (Inl REPLAY_DETECTED, w') \<longrightarrow>
      w' = w \<and> sessions w sid \<noteq> None) \<and>
   (nmFinishHandshake_with arg L p w = (Inl CLIENT_SIGNATURE_INVALID, w') \<longrightarrow>
      w' = w\<lparr>sessions := (sessions w)(the (sessionId p) := None)\<rparr> \<and>
      fst (getSession (the (sessionId p)) w') = Inr None \<and>
      vault_store w' = vault_store w \<and> MEMORY_IDENTITY w' = MEMORY_IDENTITY w \<and>
      localStorage w' = localStorage w)"
proof (intro conjI impI)
  assume d: "decryptWithSession L sid nonce ciphertext w = (Inl DECRYPT_FAILED, w')"
  then show "sessions w sid \<noteq> None"
    by (cases "sessions w sid") (simp_all add: decryptWithSession_def)
  then obtain s where "sessions w sid = Some s" by auto
  from decryptWithSession_live [OF this, of L nonce ciphertext] d show "w' = w"
    by (auto split: if_splits option.splits)
next
  assume r: "recordIncomingSeq sid v w = (Inl REPLAY_DETECTED, w')"
  then show "sessions w sid \<noteq> None"
    by (cases "sessions w sid") (simp_all add: recordIncomingSeq_def)
  then obtain s where "sessions w sid = Some s" by auto
  from recordIncomingSeq_live [OF this, of v] r show "w' = w"
    by (auto split: if_splits js_value.splits)
next
  assume f: "nmFinishHandshake_with arg L p w = (Inl CLIENT_SIGNATURE_INVALID, w')"
  from nmFinishHandshake_with_failure [OF f]
  show w': "w' = w\<lparr>sessions := (sessions w)(the (sessionId p) := None)\<rparr>"
    by simp
  then show "fst (getSession (the (sessionId p)) w') = Inr None"
    "vault_store w' = vault_store w" "MEMORY_IDENTITY w' = MEMORY_IDENTITY w"
    "localStorage w' = localStorage w"
    by (simp_all add: getSession_def)
qed

theorem crypto_failure_state_witness:
  "decryptWithSession jest_lib ''s1'' (replicate 24 0) (replicate 16 0) live =
     (Inl DECRYPT_FAILED, live) \<and>
   recordIncomingSeq ''s1'' (JNumber 0) live = (Inl REPLAY_DETECTED, live) \<and>
   sessions live ''s1'' \<noteq> None \<and>
   nmFinishHandshake_with Client jest_lib (finish_request (replicate 64 0)) paired_live =
     (Inl CLIENT_SIGNATURE_INVALID, paired_live\<lparr>sessions := Map.empty\<rparr>) \<and>
   vault_store (paired_live\<lparr>sessions := Map.empty\<rparr>) = vault_store paired_live"
  using crypto_failure_state [where L = jest_lib and sid = "''s1''" and nonce = "replicate 24 0"
      and ciphertext = "replicate 16 0" and w = live and w' = live and v = "JNumber 0"]
    crypto_failure_state [where L = jest_lib and arg = Client
      and p = "finish_request (replicate 64 0)" and w = paired_live
      and w' = "paired_live\<lparr>sessions := Map.empty\<rparr>"]
  by (simp add: decrypt_zero_frame replay_zero finish_zero_signature)

subsection \<open>Computations that do not consult the native-messaging flag\<close>

lemma flag_blind_ret [simp, intro!]: "flag_blind (ret x)"
  by (simp add: flag_blind_def)

lemma flag_blind_throw [simp, intro!]: "flag_blind (throw e)"
  by (simp add: flag_blind_def)

lemma flag_blind_await [intro!]:
  assumes "flag_blind m" and "\<And>x. flag_blind (f x)"
  shows "flag_blind (await m f)"
  unfolding flag_blind_def
proof (intro allI)
  fix w b
  obtain r w1 where m: "m w = (r, w1)" by (cases "m w")
  with assms(1) have mb: "m (w\<lparr>nativeMessagingEnabled := b\<rparr>) =
      (r, w1\<lparr>nativeMessagingEnabled := b\<rparr>)"
    by (simp add: flag_blind_def)
  show "await m f (w\<lparr>nativeMessagingEnabled := b\<rparr>) =
      (fst (await m f w), (snd (await m f w))\<lparr>nativeMessagingEnabled := b\<rparr>)"
  proof (cases r)
    case (Inl e)
    with m mb show ?thesis by (simp add: await_def)
  next
    case (Inr a)
    from assms(2) [of a] have "f a (w1\<lparr>nativeMessagingEnabled := b\<rparr>) =
        (fst (f a w1), (snd (f a w1))\<lparr>nativeMessagingEnabled := b\<rparr>)"
      by (simp add: flag_blind_def)
    with Inr m mb show ?thesis by (simp add: await_def)
  qed
qed

lemma flag_blind_try_catch [intro!]:
  assumes "flag_blind m" and "\<And>e. flag_blind (h e)"
  shows "flag_blind (try_catch m h)"
  unfolding flag_blind_def
proof (intro allI)
  fix w b
  obtain r w1 where m: "m w = (r, w1)" by (cases "m w")
  with assms(1) have mb: "m (w\<lparr>nativeMessagingEnabled := b\<rparr>) =
      (r, w1\<lparr>nativeMessagingEnabled := b\<rparr>)"
    by (simp add: flag_blind_def)
  show "try_catch m h (w\<lparr>nativeMessagingEnabled := b\<rparr>) =
      (fst (try_catch m h w), (snd (try_catch m h w))\<lparr>nativeMessagingEnabled := b\<rparr>)"
  proof (cases r)
    case (Inr a)
    with m mb show ?thesis by (simp add: try_catch_def)
  next
    case (Inl e)
    from assms(2) [of e] have "h e (w1\<lparr>nativeMessagingEnabled := b\<rparr>) =
        (fst (h e w1), (snd (h e w1))\<lparr>nativeMessagingEnabled := b\<rparr>)"
      by (simp add: flag_blind_def)
    with Inl m mb show ?thesis by (simp add: try_catch_def)
  qed
qed

lemma flag_blind_dot_catch [intro!]:
  assumes "flag_blind m" and "\<And>e. flag_blind (h e)"
  shows "flag_blind (dot_catch m h)"
  unfolding flag_blind_def
proof (intro allI)
  fix w b
  obtain r w1 where m: "m w = (r, w1)" by (cases "m w")
  with assms(1) have mb: "m (w\<lparr>nativeMessagingEnabled := b\<rparr>) =
      (r, w1\<lparr>nativeMessagingEnabled := b\<rparr>)"
    by (simp add: flag_blind_def)
  show "dot_catch m h (w\<lparr>nativeMessagingEnabled := b\<rparr>) =
      (fst (dot_catch m h w), (snd (dot_catch m h w))\<lparr>nativeMessagingEnabled := b\<rparr>)"
  proof (cases r)
    case (Inr a)
    with m mb show ?thesis by (simp add: dot_catch_def)
  next
    case (Inl e)
    from assms(2) [of e] have "h e (w1\<lparr>nativeMessagingEnabled := b\<rparr>) =
        (fst (h e w1), (snd (h e w1))\<lparr>nativeMessagingEnabled := b\<rparr>)"
      by (simp add: flag_blind_def)
    with Inl m mb show ?thesis by (simp add: dot_catch_def)
  qed
qed

lemma flag_blind_lift [simp, intro!]: "flag_blind (lift r)"
  by (simp add: flag_blind_def)

lemma flag_blind_if [intro!]:
  "(c \<Longrightarrow> flag_blind a) \<Longrightarrow> (\<not> c \<Longrightarrow> flag_blind b) \<Longrightarrow> flag_blind (if c then a else b)"
  by simp

lemma flag_blind_case_option [intro!]:
  "(x = None \<Longrightarrow> flag_blind a) \<Longrightarrow> (\<And>y. x = Some y \<Longrightarrow> flag_blind (f y)) \<Longrightarrow>
   flag_blind (case x of None \<Rightarrow> a | Some y \<Rightarrow> f y)"
  by (cases x) simp_all

lemma flag_blind_case_prod [intro!]:
  "(\<And>a b. flag_blind (f a b)) \<Longrightarrow> flag_blind (case p of (a, b) \<Rightarrow> f a b)"
  by (cases p) simp

lemma flag_blind_primitives [simp, intro!]:
  "flag_blind (encryptionGet c k)"
  "flag_blind (encryptionAdd c k v)"
  "flag_blind (encryptionGetStatus c)"
  "flag_blind (encryptionInit c)"
  "flag_blind (sign_keypair L)"
  "flag_blind (box_keypair L)"
  "flag_blind (randomBytes L n)"
  "flag_blind new_Date_toISOString"
  "flag_blind getMemIdentity"
  "flag_blind (setMemIdentity mi)"
  "flag_blind (localStorage_setItem k s)"
  "flag_blind (localStorage_removeItem k)"
  "flag_blind (getSession sid)"
  "flag_blind (closeSession sid)"
  "flag_blind clearAllSessions"
  "flag_blind (update_session sid g)"
  by (cases c; simp add: flag_blind_def prim_defs reply_of_def update_session_def
      split: option.splits)+

lemma flag_blind_JSON_parse [simp, intro!]: "flag_blind (JSON_parse v)"
  by (cases v) (simp_all add: JSON_parse_def)

lemma flag_blind_getClientIdentityPublicKey [simp, intro!]:
  "flag_blind (getClientIdentityPublicKey c)"
  unfolding getClientIdentityPublicKey_def getClientData_def
  by (intro flag_blind_await flag_blind_dot_catch flag_blind_try_catch flag_blind_case_option
      flag_blind_primitives flag_blind_JSON_parse) simp_all

lemma flag_blind_getOrCreatePairingSecret [simp, intro!]:
  "flag_blind (getOrCreatePairingSecret L c)"
  unfolding getOrCreatePairingSecret_def
  by (intro flag_blind_await flag_blind_dot_catch flag_blind_try_catch flag_blind_case_option
      flag_blind_if flag_blind_primitives) simp_all

lemma flag_blind_ensureEncryptionInitialized [simp, intro!]:
  "flag_blind (ensureEncryptionInitialized c)"
  unfolding ensureEncryptionInitialized_def
  by (intro flag_blind_await flag_blind_try_catch flag_blind_if flag_blind_primitives)
    simp_all

lemma flag_blind_generateAndPersistIdentity [simp, intro!]:
  "flag_blind (generateAndPersistIdentity L c)"
  unfolding generateAndPersistIdentity_def
  by (intro flag_blind_await flag_blind_try_catch flag_blind_if flag_blind_case_prod
      flag_blind_primitives) simp_all

lemma flag_blind_getOrCreateIdentity [simp, intro!]:
  "flag_blind (getOrCreateIdentity L c)"
  unfolding getOrCreateIdentity_def
  by (intro flag_blind_await flag_blind_try_catch flag_blind_dot_catch flag_blind_if
      flag_blind_case_prod flag_blind_case_option flag_blind_primitives
      flag_blind_ensureEncryptionInitialized flag_blind_getOrCreatePairingSecret
      flag_blind_generateAndPersistIdentity) simp_all

lemma flag_blind_resetIdentity [simp, intro!]: "flag_blind (resetIdentity L c)"
  unfolding resetIdentity_def
  by (intro flag_blind_await flag_blind_try_catch flag_blind_dot_catch
      flag_blind_primitives flag_blind_getOrCreateIdentity) simp_all

text \<open>nmFinishHandshake, nmCloseSession and nmResetPairing do not consult the flag.\<close>

lemma flag_blind_nmResetPairing: "flag_blind (nmResetPairing L c)"
  unfolding nmResetPairing_def
  by (intro flag_blind_await flag_blind_primitives flag_blind_resetIdentity) simp_all

lemma flag_blind_nmCloseSession: "flag_blind (nmCloseSession p)"
  unfolding nmCloseSession_def
  by (intro flag_blind_if flag_blind_primitives) simp_all

lemma flag_blind_nmFinishHandshake_with: "flag_blind (nmFinishHandshake_with arg L p)"
  unfolding nmFinishHandshake_with_def Let_def
  by (intro flag_blind_await flag_blind_if flag_blind_case_option flag_blind_primitives
      flag_blind_getClientIdentityPublicKey) simp_all

lemma flag_blind_nmGetAppIdentity_with: "flag_blind (nmGetAppIdentity_with arg L c p)"
  unfolding nmGetAppIdentity_with_def verifyPairingToken_def getPairingToken_def
    setClientIdentityPublicKey_def
  by (intro flag_blind_await flag_blind_if flag_blind_primitives flag_blind_lift
      flag_blind_getOrCreateIdentity flag_blind_getOrCreatePairingSecret
      flag_blind_getClientIdentityPublicKey) simp_all

text \<open>What that means for a state in which the flag is off.\<close>

lemma flag_blind_off:
  assumes "flag_blind m" and "\<not> nativeMessagingEnabled w"
  shows "fst (m w) = fst (m (w\<lparr>nativeMessagingEnabled := True\<rparr>))"
    and "after m w =
      (after m (w\<lparr>nativeMessagingEnabled := True\<rparr>))\<lparr>nativeMessagingEnabled := False\<rparr>"
proof -
  from assms(2) have "w\<lparr>nativeMessagingEnabled := False\<rparr> = w"
    by (cases w) simp
  moreover from assms(1) have "m (w\<lparr>nativeMessagingEnabled := False\<rparr>) =
      (fst (m (w\<lparr>nativeMessagingEnabled := True\<rparr>)),
       (snd (m (w\<lparr>nativeMessagingEnabled := True\<rparr>)))\<lparr>nativeMessagingEnabled := False\<rparr>)"
    using spec [OF spec [OF assms(1) [unfolded flag_blind_def],
        of "w\<lparr>nativeMessagingEnabled := True\<rparr>"], of False]
    by simp
  ultimately show "fst (m w) = fst (m (w\<lparr>nativeMessagingEnabled := True\<rparr>))"
    and "after m w =
      (after m (w\<lparr>nativeMessagingEnabled := True\<rparr>))\<lparr>nativeMessagingEnabled := False\<rparr>"
    by (simp_all add: after_def)
qed

subsection \<open>What the native-messaging flag gates\<close>

lemma disabled_live_sel [simp]:
  "\<not> nativeMessagingEnabled disabled_live"
  "sessions disabled_live = [''s1'' \<mapsto> session0]"
  "disabled_live\<lparr>nativeMessagingEnabled := True\<rparr> = paired_live"
  by (simp_all add: disabled_live_def paired_live_def pinned_world_eq fresh_def)

text \<open>
  C6, as stated, fails.  With native messaging switched off, nmCloseSession succeeds and
  removes the session, and nmFinishHandshake does not answer NATIVE_MESSAGING_DISABLED:
  as written it fails with a TypeError, and with the pinned key read through the client
  it checks the signature and closes the session.
\<close>

theorem ungated_operations_run_when_disabled:
  "\<not> nativeMessagingEnabled disabled_live \<and>
   fst (getSession ''s1'' disabled_live) = Inr (Some session0) \<and>
   fst (nmCloseSession (finish_request (replicate 64 0)) disabled_live) = Inr () \<and>
   fst (getSession ''s1''
          (after (nmCloseSession (finish_request (replicate 64 0))) disabled_live)) =
     Inr None \<and>
   fst (nmFinishHandshake jest_lib (finish_request (replicate 64 0)) disabled_live) =
     Inl TypeError \<and>
   fst (nmFinishHandshake_with Client jest_lib (finish_request (replicate 64 0))
          disabled_live) = Inl CLIENT_SIGNATURE_INVALID \<and>
   fst (getSession ''s1''
          (after (nmFinishHandshake_with Client jest_lib (finish_request (replicate 64 0)))
             disabled_live)) = Inr None"
proof -
  have c: "nmCloseSession (finish_request (replicate 64 0)) disabled_live =
      (Inr (), disabled_live\<lparr>sessions := Map.empty\<rparr>)"
    by (simp add: nmCloseSession_def truthy_def closeSession_def)
  have s: "fst (nmFinishHandshake jest_lib (finish_request (replicate 64 0)) disabled_live) =
      Inl TypeError"
    using flag_blind_off(1) [OF flag_blind_nmFinishHandshake_with, of disabled_live
        Undefined jest_lib "finish_request (replicate 64 0)"]
      finish_source [of "replicate 64 0"]
    by (simp add: nmFinishHandshake_def)
  have f: "fst (nmFinishHandshake_with Client jest_lib (finish_request (replicate 64 0))
      disabled_live) = Inl CLIENT_SIGNATURE_INVALID"
    using flag_blind_off(1) [OF flag_blind_nmFinishHandshake_with, of disabled_live
        Client jest_lib "finish_request (replicate 64 0)"]
    by (simp add: finish_zero_signature)
  have a: "after (nmFinishHandshake_with Client jest_lib (finish_request (replicate 64 0)))
      disabled_live = paired_live\<lparr>sessions := Map.empty, nativeMessagingEnabled := False\<rparr>"
    using flag_blind_off(2) [OF flag_blind_nmFinishHandshake_with, of disabled_live
        Client jest_lib "finish_request (replicate 64 0)"]
    by (simp add: after_def finish_zero_signature)
  from c s f a show ?thesis
    by (simp add: after_def getSession_def)
qed

text \<open>
  C6, amended.  With the flag off, nmBeginHandshake and checkExtensionPairingStatus fail
  with NATIVE_MESSAGING_DISABLED and change nothing.  nmFinishHandshake, nmCloseSession,
  nmResetPairing and nmGetAppIdentity do not consult the flag: with the flag off they
  return what they return with the flag on, and change the state in the same way.
\<close>

theorem disabled_flag_effect:
  assumes "\<not> nativeMessagingEnabled w"
  shows "nmBeginHandshake_with arg L c p w = (Inl NATIVE_MESSAGING_DISABLED, w) \<and>
    checkExtensionPairingStatus_with arg p w = (Inl NATIVE_MESSAGING_DISABLED, w) \<and>
    fst (nmFinishHandshake_with arg L p w) =
      fst (nmFinishHandshake_with arg L p (w\<lparr>nativeMessagingEnabled := True\<rparr>)) \<and>
    after (nmFinishHandshake_with arg L p) w =
      (after (nmFinishHandshake_with arg L p) (w\<lparr>nativeMessagingEnabled := True\<rparr>))
        \<lparr>nativeMessagingEnabled := False\<rparr> \<and>
    fst (nmCloseSession p w) = fst (nmCloseSession p (w\<lparr>nativeMessagingEnabled := True\<rparr>)) \<and>
    after (nmCloseSession p) w =
      (after (nmCloseSession p) (w\<lparr>nativeMessagingEnabled := True\<rparr>))
        \<lparr>nativeMessagingEnabled := False\<rparr> \<and>
    fst (nmResetPairing L c w) =
      fst (nmResetPairing L c (w\<lparr>nativeMessagingEnabled := True\<rparr>)) \<and>
    after (nmResetPairing L c) w =
      (after (nmResetPairing L c) (w\<lparr>nativeMessagingEnabled := True\<rparr>))
        \<lparr>nativeMessagingEnabled := False\<rparr> \<and>
    fst (nmGetAppIdentity_with arg L c p w) =
      fst (nmGetAppIdentity_with arg L c p (w\<lparr>nativeMessagingEnabled := True\<rparr>)) \<and>
    after (nmGetAppIdentity_with arg L c p) w =
      (after (nmGetAppIdentity_with arg L c p) (w\<lparr>nativeMessagingEnabled := True\<rparr>))
        \<lparr>nativeMessagingEnabled := False\<rparr>"
proof -
  from assms have "nmBeginHandshake_with arg L c p w = (Inl NATIVE_MESSAGING_DISABLED, w)"
    by (simp add: nmBeginHandshake_with_def)
  moreover from assms
  have "checkExtensionPairingStatus_with arg p w = (Inl NATIVE_MESSAGING_DISABLED, w)"
    by (simp add: checkExtensionPairingStatus_with_def)
  moreover note flag_blind_off [OF flag_blind_nmFinishHandshake_with assms]
    flag_blind_off [OF flag_blind_nmCloseSession assms]
    flag_blind_off [OF flag_blind_nmResetPairing assms]
    flag_blind_off [OF flag_blind_nmGetAppIdentity_with assms]
  ultimately show ?thesis
    by blast
qed

theorem disabled_flag_effect_witness:
  "\<not> nativeMessagingEnabled disabled_live \<and>
   nmBeginHandshake jest_lib Client (finish_request (replicate 64 0)) disabled_live =
     (Inl NATIVE_MESSAGING_DISABLED, disabled_live) \<and>
   checkExtensionPairingStatus (finish_request (replicate 64 0)) disabled_live =
     (Inl NATIVE_MESSAGING_DISABLED, disabled_live) \<and>
   fst (nmCloseSession (finish_request (replicate 64 0)) disabled_live) =
     fst (nmCloseSession (finish_request (replicate 64 0)) paired_live) \<and>
   fst (nmFinishHandshake_with Client jest_lib (finish_request (replicate 64 0))
          disabled_live) = Inl CLIENT_SIGNATURE_INVALID"
  using disabled_flag_effect [of disabled_live Undefined jest_lib Client
      "finish_request (replicate 64 0)"]
    disabled_flag_effect [of disabled_live Client jest_lib Client
      "finish_request (replicate 64 0)"]
  by (simp add: nmBeginHandshake_def checkExtensionPairingStatus_def finish_zero_signature)

subsection \<open>Pinning the peer (nmGetAppIdentity)\<close>

lemma pairing_request_sel [simp]:
  "pairingToken (pairing_request t) = Some t"
  "clientEd25519PublicKeyB64 (pairing_request t) = Some extensionKey"
  by (simp_all add: pairing_request_def no_params_def)

text \<open>
  A request with a token that verifies reaches the read of the pinned key, in the state
  \<open>w2\<close> that getOrCreateIdentity and verifyPairingToken leave.
\<close>

lemma nmGetAppIdentity_with_valid:
  assumes "truthy (pairingToken p)" and "truthy (clientEd25519PublicKeyB64 p)"
    and "getOrCreateIdentity L c w = (Inr i, w1)"
    and "verifyPairingToken L c (ed25519PublicKey i) (pairingToken p) w1 = (Inr True, w2)"
  shows "nmGetAppIdentity_with arg L c p w =
    await (getClientIdentityPublicKey arg) (\<lambda>existingClientPubB64.
      if truthy existingClientPubB64 \<and>
         existingClientPubB64 \<noteq> clientEd25519PublicKeyB64 p
      then throw CLIENT_ALREADY_PAIRED
      else
        await (setClientIdentityPublicKey c (clientEd25519PublicKeyB64 p) PENDING) (\<lambda>_.
        ret (ed25519PublicKey i, x25519PublicKey i,
             getFingerprint L (ed25519PublicKey i)))) w2"
  using assms(1,2)
  by (simp add: nmGetAppIdentity_with_def await_Inr [where m = "getOrCreateIdentity L c", OF assms(3)]
      await_Inr [where m = "verifyPairingToken L c (ed25519PublicKey i) (pairingToken p)",
        OF assms(4)])

text \<open>
  The handler as written calls \<^verbatim>\<open>getClientIdentityPublicKey()\<close> without the client: with
  a token that verifies it fails with a TypeError and pins nothing.
\<close>

lemma nmGetAppIdentity_valid_token:
  assumes "truthy (pairingToken p)" and "truthy (clientEd25519PublicKeyB64 p)"
    and "getOrCreateIdentity L c w = (Inr i, w1)"
    and "verifyPairingToken L c (ed25519PublicKey i) (pairingToken p) w1 = (Inr True, w2)"
  shows "nmGetAppIdentity L c p w = (Inl TypeError, w2)"
  by (simp add: nmGetAppIdentity_def nmGetAppIdentity_with_valid [OF assms])

text \<open>The handler as written returns nothing on any request.\<close>

lemma await_raises:
  assumes "\<And>x w'. \<exists>e. fst (f x w') = Inl e"
  shows "\<exists>e. fst (await m f w) = Inl e"
proof (cases "m w")
  case (Pair r w1)
  with assms [of _ w1] show ?thesis
    by (cases r) (simp_all add: await_def)
qed

lemma nmGetAppIdentity_raises: "\<exists>e. fst (nmGetAppIdentity L c p w) = Inl e"
  unfolding nmGetAppIdentity_def nmGetAppIdentity_with_def
  by (auto intro!: await_raises)

text \<open>
  With the client passed to that read, the handler does what C2 says: another pinned key
  is refused and the record is left alone; otherwise the key of the request is pinned as
  PENDING and the identity is returned (when the vault takes the write).
\<close>

lemma nmGetAppIdentity_with_Client_pins:
  assumes "truthy (pairingToken p)" and "truthy (clientEd25519PublicKeyB64 p)"
    and "getOrCreateIdentity L Client w = (Inr i, w1)"
    and "verifyPairingToken L Client (ed25519PublicKey i) (pairingToken p) w1 = (Inr True, w2)"
  shows "nmGetAppIdentity_with Client L Client p w =
    (if truthy (pinnedKey w2) \<and> pinnedKey w2 \<noteq> clientEd25519PublicKeyB64 p
     then (Inl CLIENT_ALREADY_PAIRED, w2)
     else if vault_add_ok w2
     then (Inr (ed25519PublicKey i, x25519PublicKey i, getFingerprint L (ed25519PublicKey i)),
           w2\<lparr>vault_store := (vault_store w2)(ENC_KEY_CLIENT_DATA \<mapsto>
             Json \<lparr>publicKey = clientEd25519PublicKeyB64 p, pairingState = Some PENDING\<rparr>)\<rparr>)
     else (Inl VaultRejected, w2))"
  using assms(2)
  by (simp add: nmGetAppIdentity_with_valid [OF assms] setClientIdentityPublicKey_def)

text \<open>The first request of the extension on a first run, under the library of the tests.\<close>

lemma b64_roundtrip_secret:
  "b64decode (b64encode (replicate 32 0)) = replicate 32 0"
  by (simp add: b64decode_def b64chars_def replicate_numeral_unfold)

lemma b64_roundtrip_public_key:
  "b64decode (b64encode (replicate 32 1)) = replicate 32 1"
  by (simp add: b64decode_def b64chars_def replicate_numeral_unfold)

lemma first_token:
  "getPairingCode jest_lib (b64encode (replicate 32 1)) (b64encode (replicate 32 0)) =
     Inr ''394752-C1C2''"
proof -
  have i: "pairingCodeInput (replicate 32 0) (replicate 32 1) =
      Inr (PAIRING_CODE_TAG @ replicate 9 0 @ replicate 55 1)"
    by (simp add: pairingCodeInput_32 replicate_numeral_unfold)
  have a: "jest_acc 0 0 (PAIRING_CODE_TAG @ replicate 9 0 @ replicate 55 1) = 189"
    by (simp add: PAIRING_CODE_TAG_def replicate_numeral_unfold)
  have h: "take 6 (map (jest_sha256 (PAIRING_CODE_TAG @ replicate 9 0 @ replicate 55 1))
      [0..<32]) = [189, 190, 191, 192, 193, 194]"
    by (simp add: jest_sha256_def a take_map upt_rec)
  have f: "formatPairingCode [189, 190, 191, 192, 193, 194] = ''394752-C1C2''"
    unfolding formatPairingCode_def Let_def by (simp add: format_defs)
  have "getPairingCode jest_lib (b64encode (replicate 32 1)) (b64encode (replicate 32 0)) =
      Inr (formatPairingCode
        (map (jest_sha256 (PAIRING_CODE_TAG @ replicate 9 0 @ replicate 55 1)) [0..<32]))"
    unfolding getPairingCode_def Let_def
    by (simp add: b64_roundtrip_secret b64_roundtrip_public_key i bindE_def)
  also have "\<dots> = Inr (formatPairingCode (take 6
        (map (jest_sha256 (PAIRING_CODE_TAG @ replicate 9 0 @ replicate 55 1)) [0..<32])))"
    by (simp only: formatPairingCode_take6)
  finally show ?thesis
    by (simp only: h f)
qed

lemma first_identity:
  "getOrCreateIdentity jest_lib Client fresh =
     (Inr \<lparr>ed25519PublicKey = b64encode (replicate 32 1),
           x25519PublicKey = b64encode (replicate 32 3),
           creationDate = now fresh\<rparr>,
      after (getOrCreateIdentity jest_lib Client) fresh)"
  by (simp add: after_def getOrCreateIdentity_absent [OF identity_absent_fresh]
      generateAndPersistIdentity_Client)

lemma first_identity_world:
  "readKey (after (getOrCreateIdentity jest_lib Client) fresh) ENC_KEY_PAIRING_SECRET =
     Some (Str (b64encode (replicate 32 0)))"
  "storedData (after (getOrCreateIdentity jest_lib Client) fresh) = None"
  "vault_add_ok (after (getOrCreateIdentity jest_lib Client) fresh)"
  by (simp_all add: after_def getOrCreateIdentity_absent [OF identity_absent_fresh]
      generateAndPersistIdentity_Client prepared_eq readKey_eq storedData_def falsy_def)

lemma first_token_verifies:
  "verifyPairingToken jest_lib Client (b64encode (replicate 32 1)) (Some ''394752-C1C2'')
     (after (getOrCreateIdentity jest_lib Client) fresh) =
   (Inr True, after (getOrCreateIdentity jest_lib Client) fresh)"
  "verifyPairingToken jest_lib Client (b64encode (replicate 32 1)) (Some ''000000-0000'')
     (after (getOrCreateIdentity jest_lib Client) fresh) =
   (Inr False, after (getOrCreateIdentity jest_lib Client) fresh)"
proof -
  let ?w1 = "after (getOrCreateIdentity jest_lib Client) fresh"
  have s: "getOrCreatePairingSecret jest_lib Client ?w1 =
      (Inr (b64encode (replicate 32 0)), ?w1)"
    by (simp add: getOrCreatePairingSecret_Client first_identity_world(1)
        b64_roundtrip_secret)
  have t: "getPairingToken jest_lib Client (b64encode (replicate 32 1)) ?w1 =
      (Inr ''394752-C1C2'', ?w1)"
    by (simp add: getPairingToken_def
        await_Inr [where m = "getOrCreatePairingSecret jest_lib Client", OF s] first_token)
  show "verifyPairingToken jest_lib Client (b64encode (replicate 32 1))
      (Some ''394752-C1C2'') ?w1 = (Inr True, ?w1)"
    by (simp add: verifyPairingToken_def truthy_def
        await_Inr [where m = "getPairingToken jest_lib Client (b64encode (replicate 32 1))",
          OF t])
  show "verifyPairingToken jest_lib Client (b64encode (replicate 32 1))
      (Some ''000000-0000'') ?w1 = (Inr False, ?w1)"
    by (simp add: verifyPairingToken_def truthy_def toUpperCase_def upperChar_def
        await_Inr [where m = "getPairingToken jest_lib Client (b64encode (replicate 32 1))",
          OF t])
qed

text \<open>
  C2.  On a first run the request with the token that the desktop shows and the key of
  the extension fails with a TypeError, and no peer record is written; a wrong token is
  refused as such.  The same request succeeds, and pins the key as PENDING, when the
  pinned key is read through the client as beginHandshake reads it.
\<close>

theorem nmGetAppIdentity_fails_on_valid_token:
  "fst (nmGetAppIdentity jest_lib Client (pairing_request ''394752-C1C2'') fresh) =
     Inl TypeError \<and>
   storedData (after (nmGetAppIdentity jest_lib Client (pairing_request ''394752-C1C2''))
     fresh) = None \<and>
   fst (nmGetAppIdentity jest_lib Client (pairing_request ''000000-0000'') fresh) =
     Inl INVALID_PAIRING_TOKEN \<and>
   fst (nmGetAppIdentity_with Client jest_lib Client (pairing_request ''394752-C1C2'')
          fresh) =
     Inr (b64encode (replicate 32 1), b64encode (replicate 32 3),
          getFingerprint jest_lib (b64encode (replicate 32 1))) \<and>
   storedData (after (nmGetAppIdentity_with Client jest_lib Client
     (pairing_request ''394752-C1C2'')) fresh) =
     Some \<lparr>publicKey = Some extensionKey, pairingState = Some PENDING\<rparr>"
proof -
  let ?w1 = "after (getOrCreateIdentity jest_lib Client) fresh"
  let ?p = "pairing_request ''394752-C1C2''"
  have t: "truthy (pairingToken ?p)" "truthy (clientEd25519PublicKeyB64 ?p)"
    by (simp_all add: truthy_def)
  have v: "verifyPairingToken jest_lib Client
      (ed25519PublicKey \<lparr>ed25519PublicKey = b64encode (replicate 32 1),
         x25519PublicKey = b64encode (replicate 32 3), creationDate = now fresh\<rparr>)
      (pairingToken ?p) ?w1 = (Inr True, ?w1)"
    by (simp add: first_token_verifies(1))
  have src: "nmGetAppIdentity jest_lib Client ?p fresh = (Inl TypeError, ?w1)"
    by (rule nmGetAppIdentity_valid_token [OF t first_identity v])
  have bad: "nmGetAppIdentity jest_lib Client (pairing_request ''000000-0000'') fresh =
      (Inl INVALID_PAIRING_TOKEN, ?w1)"
    by (simp add: nmGetAppIdentity_def nmGetAppIdentity_with_def truthy_def
        await_Inr [where m = "getOrCreateIdentity jest_lib Client", OF first_identity]
        await_Inr [where m = "verifyPairingToken jest_lib Client (b64encode (replicate 32 1))
          (Some ''000000-0000'')", OF first_token_verifies(2)])
  have thru: "nmGetAppIdentity_with Client jest_lib Client ?p fresh =
      (Inr (b64encode (replicate 32 1), b64encode (replicate 32 3),
            getFingerprint jest_lib (b64encode (replicate 32 1))),
       ?w1\<lparr>vault_store := (vault_store ?w1)(ENC_KEY_CLIENT_DATA \<mapsto>
          Json \<lparr>publicKey = Some extensionKey, pairingState = Some PENDING\<rparr>)\<rparr>)"
    using nmGetAppIdentity_with_Client_pins [OF t first_identity v]
    by (simp add: pinnedKey_def first_identity_world truthy_def)
  have st: "storedData (?w1\<lparr>vault_store := (vault_store ?w1)(ENC_KEY_CLIENT_DATA \<mapsto>
      Json \<lparr>publicKey = Some extensionKey, pairingState = Some PENDING\<rparr>)\<rparr>) =
      Some \<lparr>publicKey = Some extensionKey, pairingState = Some PENDING\<rparr>"
    using first_identity_world(3)
    by (simp add: storedData_def readKey_eq falsy_def after_def
        getOrCreateIdentity_absent [OF identity_absent_fresh]
        generateAndPersistIdentity_Client)
  from src bad thru st first_identity_world(2) show ?thesis
    by (simp add: after_def)
qed

end
